theory Spec2Isabelle
  imports Main
begin

section \<open>Data model (models.py)\<close>

text \<open>
  Timestamps are counted in microseconds from Python's \<open>datetime.min\<close>
  (0001-01-01 00:00:00); \<open>datetime.max\<close> is 9999-12-31 23:59:59.999999.
  Text is modelled over the ASCII alphabet, one \<open>char\<close> per unit of length.
\<close>

type_synonym datetime = int

definition datetime_min :: datetime where
  "datetime_min = 0"

definition datetime_max :: datetime where
  "datetime_max = 315537897599999999"

text \<open>
  Rows of the tables \<open>twitter_user\<close>, \<open>tweet\<close>, \<open>tweet_hashtag\<close> and \<open>tweet_topic\<close>.
  The tables \<open>hashtag\<close> and \<open>topic\<close> have the same three columns (id, the unique text,
  use_count), so both use the row type \<open>tag\<close>.
\<close>

datatype twitter_user =
  TwitterUser (tu_id: int) (tu_username: string) (tu_display_name: string)
    (tu_last_updated: datetime)

datatype tweet =
  Tweet (tw_id: int) (tw_user_id: int) (tw_content: string) (tw_language: "string option")
    (tw_created_at: datetime) (tw_sentiment_score: "int option") (tw_like_count: int)
    (tw_retweet_count: int) (tw_reply_count: int)

datatype tag = Tag (tag_id: int) (tag_text: string) (tag_use_count: int)

datatype tweet_hashtag = TweetHashtag (th_tweet_id: int) (th_hashtag_id: int)

datatype tweet_topic = TweetTopic (tt_tweet_id: int) (tt_topic_id: int) (tt_sort_order: int)

record tables =
  twitter_user_tab :: "twitter_user list"
  tweet_tab :: "tweet list"
  hashtag_tab :: "tag list"
  topic_tab :: "tag list"
  tweet_hashtag_tab :: "tweet_hashtag list"
  tweet_topic_tab :: "tweet_topic list"

text \<open>The exceptions that the modelled code can meet.\<close>

datatype exn =
  IntegrityError | DataError | OperationalError | MultipleResultsFound
  | UnboundLocalError | AttributeError | TypeError

section \<open>Filter builder (BLL.py, Between and TweetBLL.__build_filters)\<close>

record Between =
  low :: int
  high :: int
  inclusive :: bool

text \<open>One constructor for each expression that \<open>__build_filters\<close> can add.\<close>

datatype criterion =
  Tweet_user_id_eq int
  | TwitterUser_username_eq string
  | Tweet_created_at_ge datetime
  | Tweet_created_at_le datetime
  | Hashtag_hashtag_in "string list"
  | Tweet_sentiment_score_ge int
  | Tweet_sentiment_score_le int
  | Tweet_language_eq string

text \<open>
  Python truth values of the optional arguments: \<open>None\<close>, \<open>0\<close>, the empty string and
  the empty list are false. A \<open>Between\<close> is a dataclass with neither \<open>__bool__\<close> nor
  \<open>__len__\<close>, so every instance is true.
\<close>

definition truthy_int :: "int option \<Rightarrow> bool" where
  "truthy_int x = (case x of None \<Rightarrow> False | Some n \<Rightarrow> n \<noteq> 0)"

definition truthy_list :: "'a list option \<Rightarrow> bool" where
  "truthy_list x = (case x of None \<Rightarrow> False | Some xs \<Rightarrow> xs \<noteq> [])"

definition truthy_obj :: "'a option \<Rightarrow> bool" where
  "truthy_obj x = (case x of None \<Rightarrow> False | Some _ \<Rightarrow> True)"

definition TweetBLL_build_filters ::
  "int option \<Rightarrow> string option \<Rightarrow> datetime \<Rightarrow> datetime \<Rightarrow> string list option
    \<Rightarrow> Between option \<Rightarrow> string option \<Rightarrow> criterion set" where
  "TweetBLL_build_filters user_id username since until hashtags sentiment_score language =
     (let filters = {};
          filters = (if truthy_int user_id
                     then insert (Tweet_user_id_eq (the user_id)) filters else filters);
          filters = (if truthy_list username
                     then insert (TwitterUser_username_eq (the username)) filters else filters);
          filters = (if since \<noteq> datetime_min
                     then insert (Tweet_created_at_ge since) filters else filters);
          filters = (if until \<noteq> datetime_min
                     then insert (Tweet_created_at_le until) filters else filters);
          filters = (if truthy_list hashtags
                     then insert (Hashtag_hashtag_in (the hashtags)) filters else filters);
          filters = (if truthy_obj sentiment_score
                     then insert (Tweet_sentiment_score_le (high (the sentiment_score)))
                            (insert (Tweet_sentiment_score_ge (low (the sentiment_score))) filters)
                     else filters);
          filters = (if truthy_list language
                     then insert (Tweet_language_eq (the language)) filters else filters)
      in filters)"

section \<open>Statements of the data access layer (DAL.py)\<close>

text \<open>
  A statement is a function on the tables that a transaction sees. It returns the
  exception raised by the store, or its result and the changed tables.
\<close>

type_synonym 'a stmt = "tables \<Rightarrow> exn + ('a \<times> tables)"

subsection \<open>TwitterUserDAL.upsert\<close>

text \<open>
  \<open>INSERT ... ON DUPLICATE KEY UPDATE\<close> on \<open>twitter_user\<close> (primary key \<open>id\<close>, unique
  \<open>username\<close>). A row with the same primary key is the conflicting row; otherwise a row
  with the same username is. The conflicting row is updated with the three \<open>case\<close>
  expressions, all evaluated on the stored row (\<open>last_updated\<close> is assigned last).
  The update fails when it would give two rows the same username. The row count is
  1 for an insert, 2 for an update that changes the row, 1 for one that does not.
\<close>

definition user_case_update :: "string \<Rightarrow> string \<Rightarrow> datetime \<Rightarrow> twitter_user \<Rightarrow> twitter_user" where
  "user_case_update username display_name last_updated r =
     TwitterUser (tu_id r)
       (if tu_last_updated r < last_updated then username else tu_username r)
       (if tu_last_updated r < last_updated then display_name else tu_display_name r)
       (if tu_last_updated r < last_updated then last_updated else tu_last_updated r)"

definition TwitterUserDAL_upsert ::
  "int \<Rightarrow> string \<Rightarrow> string \<Rightarrow> datetime \<Rightarrow> int stmt" where
  "TwitterUserDAL_upsert uid username display_name last_updated t =
     (let rows = twitter_user_tab t in
      case find (\<lambda>r. tu_id r = uid) rows of
        Some r \<Rightarrow>
          (let r' = user_case_update username display_name last_updated r in
           if list_ex (\<lambda>x. tu_id x \<noteq> uid \<and> tu_username x = tu_username r') rows
           then Inl IntegrityError
           else Inr (if r' = r then 1 else 2,
                     t\<lparr>twitter_user_tab := map (\<lambda>x. if tu_id x = uid then r' else x) rows\<rparr>))
      | None \<Rightarrow>
          (case find (\<lambda>r. tu_username r = username) rows of
             Some r \<Rightarrow>
               (let r' = user_case_update username display_name last_updated r in
                Inr (if r' = r then 1 else 2,
                     t\<lparr>twitter_user_tab :=
                         map (\<lambda>x. if tu_username x = username then r' else x) rows\<rparr>))
           | None \<Rightarrow>
               Inr (1, t\<lparr>twitter_user_tab :=
                          rows @ [TwitterUser uid username display_name last_updated]\<rparr>)))"

subsection \<open>TweetDAL.upsert\<close>

text \<open>
  \<open>INSERT ... ON DUPLICATE KEY UPDATE\<close> on \<open>tweet\<close> (primary key \<open>id\<close>, \<open>content\<close> not
  null, \<open>user_id\<close> a foreign key to \<open>twitter_user\<close>). On a duplicate id every column but
  \<open>id\<close> and \<open>user_id\<close> is overwritten; a new row needs its author to exist.
\<close>

definition TweetDAL_upsert ::
  "int \<Rightarrow> int \<Rightarrow> string option \<Rightarrow> string option \<Rightarrow> datetime \<Rightarrow> int option
    \<Rightarrow> int \<Rightarrow> int \<Rightarrow> int \<Rightarrow> int stmt" where
  "TweetDAL_upsert tweet_id twitter_user_id content language created_at sentiment_score
      like_count retweet_count reply_count t =
     (case content of
        None \<Rightarrow> Inl IntegrityError
      | Some c \<Rightarrow>
          (case find (\<lambda>r. tw_id r = tweet_id) (tweet_tab t) of
             Some r \<Rightarrow>
               (let r' = Tweet tweet_id (tw_user_id r) c language created_at sentiment_score
                           like_count retweet_count reply_count in
                Inr (if r' = r then 1 else 2,
                     t\<lparr>tweet_tab := map (\<lambda>x. if tw_id x = tweet_id then r' else x) (tweet_tab t)\<rparr>))
           | None \<Rightarrow>
               if list_ex (\<lambda>u. tu_id u = twitter_user_id) (twitter_user_tab t)
               then Inr (1, t\<lparr>tweet_tab := tweet_tab t @
                          [Tweet tweet_id twitter_user_id c language created_at sentiment_score
                             like_count retweet_count reply_count]\<rparr>)
               else Inl IntegrityError))"

subsection \<open>HashtagDAL and TopicDAL\<close>

text \<open>
  \<open>scalar_one_or_none\<close> of a result: no row gives \<open>None\<close>, one row gives the row,
  more rows raise. Text is compared character by character.
\<close>

definition scalar_one_or_none :: "'a list \<Rightarrow> exn + 'a option" where
  "scalar_one_or_none rows =
     (case rows of [] \<Rightarrow> Inr None | [r] \<Rightarrow> Inr (Some r) | _ \<Rightarrow> Inl MultipleResultsFound)"

definition HashtagDAL_find_by_hashtag :: "string \<Rightarrow> tag option stmt" where
  "HashtagDAL_find_by_hashtag v t =
     (case scalar_one_or_none (filter (\<lambda>r. tag_text r = v) (hashtag_tab t)) of
        Inl e \<Rightarrow> Inl e | Inr r \<Rightarrow> Inr (r, t))"

definition TopicDAL_find_by_title :: "string \<Rightarrow> tag option stmt" where
  "TopicDAL_find_by_title title t =
     (case scalar_one_or_none (filter (\<lambda>r. tag_text r = title) (topic_tab t)) of
        Inl e \<Rightarrow> Inl e | Inr r \<Rightarrow> Inr (r, t))"

text \<open>
  The auto-increment primary key: above every id of the table. The columns
  \<open>hashtag.hashtag\<close> and \<open>topic.title\<close> are \<open>String(100)\<close>: the store refuses a longer
  text (the strict mode of the server, its default). Adding a row whose text is
  already there violates the unique index; \<open>use_count\<close> takes its default 0.
\<close>

definition auto_increment :: "tag list \<Rightarrow> int" where
  "auto_increment rows = fold (\<lambda>r m. max m (tag_id r + 1)) rows 1"

definition add_flush :: "string \<Rightarrow> tag list \<Rightarrow> exn + (int \<times> tag list)" where
  "add_flush v rows =
     (if length v > 100 then Inl DataError
      else if list_ex (\<lambda>r. tag_text r = v) rows then Inl IntegrityError
      else Inr (auto_increment rows, rows @ [Tag (auto_increment rows) v 0]))"

definition HashtagDAL_insert :: "string \<Rightarrow> int stmt" where
  "HashtagDAL_insert hashtag t =
     (let v = filter (\<lambda>c. c \<noteq> CHR ''#'') hashtag in
      case add_flush v (hashtag_tab t) of
        Inl e \<Rightarrow> Inl e
      | Inr (item_id, rows) \<Rightarrow> Inr (item_id, t\<lparr>hashtag_tab := rows\<rparr>))"

definition TopicDAL_insert :: "string \<Rightarrow> int stmt" where
  "TopicDAL_insert title t =
     (case add_flush title (topic_tab t) of
        Inl e \<Rightarrow> Inl e
      | Inr (item_id, rows) \<Rightarrow> Inr (item_id, t\<lparr>topic_tab := rows\<rparr>))"

subsection \<open>TweetHashtagDAL and TweetTopicDAL\<close>

definition TweetHashtagDAL_delete_by_tweet_id :: "int \<Rightarrow> int stmt" where
  "TweetHashtagDAL_delete_by_tweet_id tweet_id t =
     Inr (int (length (filter (\<lambda>l. th_tweet_id l = tweet_id) (tweet_hashtag_tab t))),
          t\<lparr>tweet_hashtag_tab := filter (\<lambda>l. th_tweet_id l \<noteq> tweet_id) (tweet_hashtag_tab t)\<rparr>)"

definition TweetTopicDAL_delete_by_tweet_id :: "int \<Rightarrow> int stmt" where
  "TweetTopicDAL_delete_by_tweet_id tweet_id t =
     Inr (int (length (filter (\<lambda>l. tt_tweet_id l = tweet_id) (tweet_topic_tab t))),
          t\<lparr>tweet_topic_tab := filter (\<lambda>l. tt_tweet_id l \<noteq> tweet_id) (tweet_topic_tab t)\<rparr>)"

subsection \<open>BaseDAL.delete and BaseDAL.delete_all\<close>

text \<open>
  The entities with an \<open>id\<close> column among the modelled tables. Deleting a tweet deletes
  its link rows (\<open>ON DELETE CASCADE\<close>); a hashtag or a topic that a link row references,
  and an author that a tweet references, cannot be deleted.
\<close>

datatype entity = Hashtag | Topic | TwitterUser_entity | Tweet_entity

definition delete_where :: "entity \<Rightarrow> (int \<Rightarrow> bool) \<Rightarrow> int stmt" where
  "delete_where Entity p t =
     (case Entity of
        Hashtag \<Rightarrow>
          if list_ex (\<lambda>l. p (th_hashtag_id l)
                \<and> list_ex (\<lambda>r. tag_id r = th_hashtag_id l) (hashtag_tab t)) (tweet_hashtag_tab t)
          then Inl IntegrityError
          else Inr (int (length (filter (\<lambda>r. p (tag_id r)) (hashtag_tab t))),
                    t\<lparr>hashtag_tab := filter (\<lambda>r. \<not> p (tag_id r)) (hashtag_tab t)\<rparr>)
      | Topic \<Rightarrow>
          if list_ex (\<lambda>l. p (tt_topic_id l)
                \<and> list_ex (\<lambda>r. tag_id r = tt_topic_id l) (topic_tab t)) (tweet_topic_tab t)
          then Inl IntegrityError
          else Inr (int (length (filter (\<lambda>r. p (tag_id r)) (topic_tab t))),
                    t\<lparr>topic_tab := filter (\<lambda>r. \<not> p (tag_id r)) (topic_tab t)\<rparr>)
      | TwitterUser_entity \<Rightarrow>
          if list_ex (\<lambda>w. p (tw_user_id w)
                \<and> list_ex (\<lambda>r. tu_id r = tw_user_id w) (twitter_user_tab t)) (tweet_tab t)
          then Inl IntegrityError
          else Inr (int (length (filter (\<lambda>r. p (tu_id r)) (twitter_user_tab t))),
                    t\<lparr>twitter_user_tab := filter (\<lambda>r. \<not> p (tu_id r)) (twitter_user_tab t)\<rparr>)
      | Tweet_entity \<Rightarrow>
          Inr (int (length (filter (\<lambda>r. p (tw_id r)) (tweet_tab t))),
               t\<lparr>tweet_tab := filter (\<lambda>r. \<not> p (tw_id r)) (tweet_tab t),
                 tweet_hashtag_tab := filter (\<lambda>l. \<not> p (th_tweet_id l)) (tweet_hashtag_tab t),
                 tweet_topic_tab := filter (\<lambda>l. \<not> p (tt_tweet_id l)) (tweet_topic_tab t)\<rparr>))"

section \<open>Sessions (dbconnection.py and the SQLAlchemy session)\<close>

text \<open>
  The store holds the committed tables and the sessions that were created and not yet
  closed, each with the tables as its transaction sees them and the objects given to
  \<open>add_all\<close> that wait for the flush. Every round trip to the store (a statement, a flush,
  a commit) takes one tick, and the store signals a failure at the ticks listed in
  \<open>faults\<close>: this stands for every failure that is not one of the modelled constraints
  (a lost connection, a lock timeout, a deadlock). A session that
  is written to is listed as open, also when it was closed before: it holds a
  connection again.
\<close>

datatype pending = New_TweetHashtag tweet_hashtag | New_TweetTopic tweet_topic

record session =
  work :: tables
  new :: "pending list"

record store =
  committed :: tables
  sessions :: "(nat \<times> session) list"
  next_session :: nat
  tick :: nat
  faults :: "nat list"

definition create_session :: "store \<Rightarrow> nat \<times> store" where
  "create_session s =
     (next_session s,
      s\<lparr>sessions := (next_session s, \<lparr>work = committed s, new = []\<rparr>) # sessions s,
        next_session := next_session s + 1\<rparr>)"

definition get_session :: "nat \<Rightarrow> store \<Rightarrow> session" where
  "get_session sid s =
     (case map_of (sessions s) sid of
        Some x \<Rightarrow> x
      | None \<Rightarrow> \<lparr>work = committed s, new = []\<rparr>)"

definition put_session :: "nat \<Rightarrow> session \<Rightarrow> store \<Rightarrow> store" where
  "put_session sid x s =
     s\<lparr>sessions := (sid, x) # filter (\<lambda>p. fst p \<noteq> sid) (sessions s)\<rparr>"

definition round_trip :: "store \<Rightarrow> store" where
  "round_trip s = s\<lparr>tick := tick s + 1\<rparr>"

definition execute :: "nat \<Rightarrow> 'a stmt \<Rightarrow> store \<Rightarrow> (exn + 'a) \<times> store" where
  "execute sid stmt s =
     (if tick s \<in> set (faults s) then (Inl OperationalError, round_trip s)
      else case stmt (work (get_session sid s)) of
             Inl e \<Rightarrow> (Inl e, round_trip s)
           | Inr (a, t') \<Rightarrow>
               (Inr a, put_session sid ((get_session sid s)\<lparr>work := t'\<rparr>) (round_trip s)))"

definition add_all :: "nat \<Rightarrow> pending list \<Rightarrow> store \<Rightarrow> store" where
  "add_all sid objs s = put_session sid ((get_session sid s)\<lparr>new := new (get_session sid s) @ objs\<rparr>) s"

text \<open>
  The flush inserts the waiting link rows one by one: the pair of ids is the primary
  key, and both ids are foreign keys.
\<close>

fun flush :: "pending list \<Rightarrow> tables \<Rightarrow> exn + tables" where
  "flush [] t = Inr t"
| "flush (New_TweetHashtag l # objs) t =
     (if list_ex (\<lambda>x. th_tweet_id x = th_tweet_id l \<and> th_hashtag_id x = th_hashtag_id l)
           (tweet_hashtag_tab t)
      then Inl IntegrityError
      else if list_ex (\<lambda>w. tw_id w = th_tweet_id l) (tweet_tab t)
           \<and> list_ex (\<lambda>h. tag_id h = th_hashtag_id l) (hashtag_tab t)
      then flush objs (t\<lparr>tweet_hashtag_tab := tweet_hashtag_tab t @ [l]\<rparr>)
      else Inl IntegrityError)"
| "flush (New_TweetTopic l # objs) t =
     (if list_ex (\<lambda>x. tt_tweet_id x = tt_tweet_id l \<and> tt_topic_id x = tt_topic_id l)
           (tweet_topic_tab t)
      then Inl IntegrityError
      else if list_ex (\<lambda>w. tw_id w = tt_tweet_id l) (tweet_tab t)
           \<and> list_ex (\<lambda>h. tag_id h = tt_topic_id l) (topic_tab t)
      then flush objs (t\<lparr>tweet_topic_tab := tweet_topic_tab t @ [l]\<rparr>)
      else Inl IntegrityError)"

definition commit :: "nat \<Rightarrow> store \<Rightarrow> (exn + unit) \<times> store" where
  "commit sid s =
     (if tick s \<in> set (faults s) then (Inl OperationalError, round_trip s)
      else case flush (new (get_session sid s)) (work (get_session sid s)) of
             Inl e \<Rightarrow> (Inl e, round_trip s)
           | Inr t' \<Rightarrow>
               (Inr (), (put_session sid \<lparr>work = t', new = []\<rparr> (round_trip s))\<lparr>committed := t'\<rparr>))"

definition rollback :: "nat \<Rightarrow> store \<Rightarrow> store" where
  "rollback sid s = put_session sid \<lparr>work = committed s, new = []\<rparr> s"

definition close :: "nat \<Rightarrow> store \<Rightarrow> store" where
  "close sid s = s\<lparr>sessions := filter (\<lambda>p. fst p \<noteq> sid) (sessions s)\<rparr>"

text \<open>
  What another caller commits while a session of this caller is open: its change
  reaches the committed tables and the indexes every open transaction inserts into.
  \<open>nobody\<close> is the case of no other caller.
\<close>

definition nobody :: "tables \<Rightarrow> tables" where
  "nobody t = t"

definition concurrently :: "(tables \<Rightarrow> tables) \<Rightarrow> store \<Rightarrow> store" where
  "concurrently rival s =
     s\<lparr>committed := rival (committed s),
       sessions := map (\<lambda>p. (fst p, (snd p)\<lparr>work := rival (work (snd p))\<rparr>)) (sessions s)\<rparr>"

section \<open>Business layer (BLL.py)\<close>

subsection \<open>BaseBLL.delete and BaseBLL.delete_all\<close>

text \<open>
  \<open>BaseDAL.delete\<close> returns \<open>result.rowcount\<close> from its \<open>finally\<close> block: when the
  statement raised, \<open>result\<close> is unbound there. \<open>BaseDAL.delete_all\<close> prints the
  exception and returns nothing, that is \<open>None\<close>.
\<close>

definition BaseDAL_delete :: "entity \<Rightarrow> nat \<Rightarrow> int \<Rightarrow> store \<Rightarrow> (exn + int) \<times> store" where
  "BaseDAL_delete Entity session i s =
     (case execute session (delete_where Entity (\<lambda>j. j = i)) s of
        (Inl e, s) \<Rightarrow> (Inl UnboundLocalError, s)
      | (Inr rowcount, s) \<Rightarrow> (Inr rowcount, s))"

definition BaseDAL_delete_all :: "entity \<Rightarrow> nat \<Rightarrow> store \<Rightarrow> int option \<times> store" where
  "BaseDAL_delete_all Entity session s =
     (case execute session (delete_where Entity (\<lambda>j. True)) s of
        (Inl e, s) \<Rightarrow> (None, s)
      | (Inr affected_row_count, s) \<Rightarrow> (Some affected_row_count, s))"

text \<open>
  Both methods return their local variable from the \<open>finally\<close> block, which replaces
  the \<open>return 0\<close> of the exception handler; in \<open>delete\<close> the variable \<open>res\<close> is unbound
  when \<open>repo.delete\<close> raised.
\<close>

definition BaseBLL_delete :: "entity \<Rightarrow> int \<Rightarrow> store \<Rightarrow> (exn + int) \<times> store" where
  "BaseBLL_delete Entity i s =
     (let (session, s) = create_session s in
      case BaseDAL_delete Entity session i s of
        (Inl e, s) \<Rightarrow> (Inl UnboundLocalError, close session (rollback session s))
      | (Inr res, s) \<Rightarrow>
          (case commit session s of
             (Inl e, s) \<Rightarrow> (Inr res, close session (rollback session s))
           | (Inr _, s) \<Rightarrow> (Inr res, close session s)))"

definition BaseBLL_delete_all :: "entity \<Rightarrow> store \<Rightarrow> int option \<times> store" where
  "BaseBLL_delete_all Entity s =
     (let (session, s) = create_session s;
          (result, s) = BaseDAL_delete_all Entity session s in
      case commit session s of
        (Inl e, s) \<Rightarrow> (result, close session (rollback session s))
      | (Inr _, s) \<Rightarrow> (result, close session s))"

subsection \<open>HashtagBLL.insert_if_not_exists and TopicBLL.insert_if_not_exists\<close>

text \<open>
  The two methods differ only in the repository they use, given here as the pair of
  its lookup and its insert. The first lookup stands outside the \<open>try\<close>. The handler
  binds \<open>session\<close> to a new session, so the \<open>finally\<close> block closes that one; an
  exception inside the handler is replaced by the \<open>return record_id\<close> of the
  \<open>finally\<close> block. \<open>rival\<close> is what other callers commit between the lookup and the
  insert.
\<close>

definition on_duplicate ::
  "(string \<Rightarrow> tag option stmt) \<Rightarrow> string \<Rightarrow> int \<Rightarrow> store \<Rightarrow> (exn + int) \<times> store" where
  "on_duplicate find_by text record_id s =
     (let (session, s) = create_session s in
      case execute session (find_by text) s of
        (Inl e, s) \<Rightarrow> (Inr record_id, close session s)
      | (Inr None, s) \<Rightarrow> (Inr record_id, close session s)
      | (Inr (Some result), s) \<Rightarrow> (Inr (tag_id result), close session s))"

definition insert_if_not_exists ::
  "(string \<Rightarrow> tag option stmt) \<Rightarrow> (string \<Rightarrow> int stmt) \<Rightarrow> (tables \<Rightarrow> tables) \<Rightarrow> string
    \<Rightarrow> store \<Rightarrow> (exn + int) \<times> store" where
  "insert_if_not_exists find_by insert_stmt rival text s =
     (let (session, s) = create_session s in
      case execute session (find_by text) s of
        (Inl e, s) \<Rightarrow> (Inl e, s)
      | (Inr (Some result), s) \<Rightarrow> (Inr (tag_id result), close session s)
      | (Inr None, s) \<Rightarrow>
          (case execute session (insert_stmt text) (concurrently rival s) of
             (Inl e, s) \<Rightarrow> on_duplicate find_by text 0 s
           | (Inr record_id, s) \<Rightarrow>
               (case commit session s of
                  (Inl e, s) \<Rightarrow> on_duplicate find_by text record_id s
                | (Inr _, s) \<Rightarrow> (Inr record_id, close session s))))"

definition HashtagBLL_insert_if_not_exists ::
  "(tables \<Rightarrow> tables) \<Rightarrow> string \<Rightarrow> store \<Rightarrow> (exn + int) \<times> store" where
  "HashtagBLL_insert_if_not_exists =
     insert_if_not_exists HashtagDAL_find_by_hashtag HashtagDAL_insert"

definition TopicBLL_insert_if_not_exists ::
  "(tables \<Rightarrow> tables) \<Rightarrow> string \<Rightarrow> store \<Rightarrow> (exn + int) \<times> store" where
  "TopicBLL_insert_if_not_exists =
     insert_if_not_exists TopicDAL_find_by_title TopicDAL_insert"

subsection \<open>TweetHashtagBLL.insert and TweetTopicBLL.insert\<close>

definition TweetHashtagBLL_insert :: "int \<Rightarrow> int list \<Rightarrow> store \<Rightarrow> bool \<times> store" where
  "TweetHashtagBLL_insert tweet_id hashtag_id_list s =
     (let (session, s) = create_session s in
      case execute session (TweetHashtagDAL_delete_by_tweet_id tweet_id) s of
        (Inl e, s) \<Rightarrow> (False, close session s)
      | (Inr _, s) \<Rightarrow>
          (let hashtags_in_tweet =
                 map (\<lambda>hashtag_id. New_TweetHashtag (TweetHashtag tweet_id hashtag_id))
                   hashtag_id_list;
               s = add_all session hashtags_in_tweet s in
           case commit session s of
             (Inl e, s) \<Rightarrow> (False, close session s)
           | (Inr _, s) \<Rightarrow> (True, close session s)))"

definition TweetTopicBLL_insert :: "int \<Rightarrow> int list \<Rightarrow> store \<Rightarrow> bool \<times> store" where
  "TweetTopicBLL_insert tweet_id topic_id_list s =
     (let (session, s) = create_session s in
      case execute session (TweetTopicDAL_delete_by_tweet_id tweet_id) s of
        (Inl e, s) \<Rightarrow> (False, close session s)
      | (Inr _, s) \<Rightarrow>
          (let topics_in_tweet =
                 map (\<lambda>(index, topic_id). New_TweetTopic (TweetTopic tweet_id topic_id (int index)))
                   (enumerate 0 topic_id_list);
               s = add_all session topics_in_tweet s in
           case commit session s of
             (Inl e, s) \<Rightarrow> (False, close session s)
           | (Inr _, s) \<Rightarrow> (True, close session s)))"

subsection \<open>TweetBLL.upsert\<close>

text \<open>
  \<open>re.findall('#(\w+)', content)\<close>: scanning from the left, a \<open>#\<close> followed by at least
  one word character matches together with the longest run of word characters after
  it, the run is the result, and the scan goes on behind the match. Which characters
  \<open>\w\<close> matches is the parameter \<open>word_char\<close>: in Python the letters and digits of every
  script and the underscore, never \<open>#\<close>. \<open>is_word\<close> is that class on ASCII text, where
  it is \<open>[A-Za-z0-9_]\<close>; the worked examples use it on ASCII texts.
\<close>

definition is_word :: "char \<Rightarrow> bool" where
  "is_word c =
     (let n = (of_char c :: nat) in
      (48 \<le> n \<and> n \<le> 57) \<or> (65 \<le> n \<and> n \<le> 90) \<or> n = 95 \<or> (97 \<le> n \<and> n \<le> 122))"

function findall_hashtags :: "(char \<Rightarrow> bool) \<Rightarrow> string \<Rightarrow> string list" where
  "findall_hashtags word_char [] = []"
| "findall_hashtags word_char (c # cs) =
     (if c = CHR ''#'' \<and> takeWhile word_char cs \<noteq> []
      then takeWhile word_char cs # findall_hashtags word_char (dropWhile word_char cs)
      else findall_hashtags word_char cs)"
  by pat_completeness auto
termination
  by (relation "measure (\<lambda>(word_char, cs). length cs)")
     (auto simp: length_dropWhile_le less_Suc_eq_le)

text \<open>
  The loops \<open>for e in ...: ids.append(repo.insert_if_not_exists(e))\<close>: an exception of
  a call leaves the loop.
\<close>

fun insert_each ::
  "(string \<Rightarrow> store \<Rightarrow> (exn + int) \<times> store) \<Rightarrow> string list \<Rightarrow> store
    \<Rightarrow> (exn + int list) \<times> store" where
  "insert_each f [] s = (Inr [], s)"
| "insert_each f (e # es) s =
     (case f e s of
        (Inl x, s) \<Rightarrow> (Inl x, s)
      | (Inr i, s) \<Rightarrow>
          (case insert_each f es s of
             (Inl x, s) \<Rightarrow> (Inl x, s)
           | (Inr ids, s) \<Rightarrow> (Inr (i # ids), s)))"

definition title_max_length :: nat where
  "title_max_length = 100"

text \<open>
  The ingestion upsert, in the three parts of its source: the body of the \<open>try\<close>
  block, what stands in the \<open>finally\<close> block after \<open>session.close()\<close>, and the method
  itself. \<open>truncated\<close> is the statement \<open>if x != None and len(x) > n: x = x[:n]\<close>.
  The \<open>finally\<close> part runs whether the \<open>try\<close> block raised or not. The two
  Python sets are iterated in an order the language leaves open: \<open>iter_str\<close> gives the
  order of \<open>set(re.findall(...))\<close> and \<open>iter_int\<close> the order of the set \<open>topic_ids\<close>, each
  from the elements in the order they were added. No other caller interferes.
\<close>

definition truncated :: "nat \<Rightarrow> string option \<Rightarrow> string option" where
  "truncated n x = (if x \<noteq> None \<and> length (the x) > n then Some (take n (the x)) else x)"

definition TweetBLL_upsert_try ::
  "nat \<Rightarrow> int \<Rightarrow> int \<Rightarrow> string \<Rightarrow> string \<Rightarrow> string option \<Rightarrow> string option \<Rightarrow> datetime
    \<Rightarrow> int option \<Rightarrow> int \<Rightarrow> int \<Rightarrow> int \<Rightarrow> store \<Rightarrow> (exn + int) \<times> store" where
  "TweetBLL_upsert_try session tweet_id twitter_user_id username display_name content
      language created_at sentiment_score like_count retweet_count reply_count s =
     (case execute session
             (TwitterUserDAL_upsert twitter_user_id username display_name created_at) s of
        (Inl e, s) \<Rightarrow> (Inl e, s)
      | (Inr _, s) \<Rightarrow>
          (case execute session
                  (TweetDAL_upsert tweet_id twitter_user_id content language created_at
                     sentiment_score like_count retweet_count reply_count) s of
             (Inl e, s) \<Rightarrow> (Inl e, s)
           | (Inr affected_row_count, s) \<Rightarrow>
               (case commit session s of
                  (Inl e, s) \<Rightarrow> (Inl e, s)
                | (Inr _, s) \<Rightarrow> (Inr affected_row_count, s))))"

definition TweetBLL_upsert_finally ::
  "(char \<Rightarrow> bool) \<Rightarrow> (string list \<Rightarrow> string list) \<Rightarrow> (int list \<Rightarrow> int list) \<Rightarrow> int
    \<Rightarrow> string option \<Rightarrow> string list option \<Rightarrow> int \<Rightarrow> store \<Rightarrow> (exn + int) \<times> store" where
  "TweetBLL_upsert_finally word_char iter_str iter_int tweet_id content topics
      affected_row_count s =
     (case content of
        None \<Rightarrow> (Inl TypeError, s)
      | Some c \<Rightarrow>
          (case insert_each (HashtagBLL_insert_if_not_exists (\<lambda>t. t))
                  (iter_str (findall_hashtags word_char c)) s of
             (Inl e, s) \<Rightarrow> (Inl e, s)
           | (Inr hashtag_ids, s) \<Rightarrow>
               (let (success, s) = TweetHashtagBLL_insert tweet_id hashtag_ids s in
                if truthy_list topics
                then (case insert_each (TopicBLL_insert_if_not_exists (\<lambda>t. t))
                              (map (\<lambda>e. if length e > title_max_length
                                         then take title_max_length e else e) (the topics)) s of
                        (Inl e, s) \<Rightarrow> (Inl e, s)
                      | (Inr topic_ids, s) \<Rightarrow>
                          (let (success, s) = TweetTopicBLL_insert tweet_id (iter_int topic_ids) s
                           in (Inr affected_row_count, s)))
                else (Inr affected_row_count, s))))"

definition TweetBLL_upsert ::
  "(char \<Rightarrow> bool) \<Rightarrow> (string list \<Rightarrow> string list) \<Rightarrow> (int list \<Rightarrow> int list) \<Rightarrow>
    int \<Rightarrow> int \<Rightarrow> string \<Rightarrow> string \<Rightarrow> string option \<Rightarrow> string option \<Rightarrow> datetime
    \<Rightarrow> int option \<Rightarrow> int \<Rightarrow> int \<Rightarrow> int \<Rightarrow> string list option \<Rightarrow> store
    \<Rightarrow> (exn + int) \<times> store" where
  "TweetBLL_upsert word_char iter_str iter_int tweet_id twitter_user_id username display_name
      content language created_at sentiment_score like_count retweet_count reply_count topics s =
     (let (session, s) = create_session s;
          content = truncated 280 content;
          language = truncated 5 language;
          (affected_row_count, s) =
            (case TweetBLL_upsert_try session tweet_id twitter_user_id username display_name
                    content language created_at sentiment_score like_count retweet_count
                    reply_count s of
               (Inl e, s) \<Rightarrow> (0, rollback session s)
             | (Inr affected_row_count, s) \<Rightarrow> (affected_row_count, s));
          s = close session s
      in TweetBLL_upsert_finally word_char iter_str iter_int tweet_id content topics
           affected_row_count s)"


definition Tweet_topic_links :: "tables \<Rightarrow> int \<Rightarrow> tweet_topic list" where
  "Tweet_topic_links t tweet_id = filter (\<lambda>l. tt_tweet_id l = tweet_id) (tweet_topic_tab t)"

definition find_by_id :: "tables \<Rightarrow> int \<Rightarrow> tweet option" where
  "find_by_id t tweet_id = find (\<lambda>r. tw_id r = tweet_id) (tweet_tab t)"


subsection \<open>TweetDAL.filter, TweetDAL.count_if, TweetBLL.filter_by and TweetBLL.count_if\<close>

text \<open>
  The two queries build a \<open>SELECT\<close> statement and hand it to the store. The statement
  is modelled as the code assembles it (the tables of \<open>select_from\<close>, \<open>distinct\<close>, the
  join conditions and the filters); how the store evaluates it is the parameter
  \<open>sql\<close>, with the rows of a query and the scalar of a \<open>count\<close> query.
\<close>

datatype table_name = Tweet_table | TwitterUser_table | TweetHashtag_table | Hashtag_table

datatype join_condition =
  Tweet_user_id_eq_TwitterUser_id
  | Tweet_id_eq_TweetHashtag_tweet_id
  | Hashtag_id_eq_TweetHashtag_hashtag_id

record select_statement =
  select_count :: bool
  select_from :: "table_name list"
  select_distinct :: bool
  select_where :: "join_condition list"
  select_filter :: "criterion set"

record sql_engine =
  fetchall :: "select_statement \<Rightarrow> tables \<Rightarrow> (tweet \<times> twitter_user) list"
  scalar_one :: "select_statement \<Rightarrow> tables \<Rightarrow> int"

text \<open>The key of the column on the left of a filter expression (\<open>e.left.key\<close>).\<close>

fun left_key :: "criterion \<Rightarrow> string" where
  "left_key (Tweet_user_id_eq _) = ''user_id''"
| "left_key (TwitterUser_username_eq _) = ''username''"
| "left_key (Tweet_created_at_ge _) = ''created_at''"
| "left_key (Tweet_created_at_le _) = ''created_at''"
| "left_key (Hashtag_hashtag_in _) = ''hashtag''"
| "left_key (Tweet_sentiment_score_ge _) = ''sentiment_score''"
| "left_key (Tweet_sentiment_score_le _) = ''sentiment_score''"
| "left_key (Tweet_language_eq _) = ''language''"

text \<open>
  The objects that \<open>TweetDAL.filter\<close> returns: a tweet whose content is \<open>None\<close> when
  \<open>exclude_content\<close> is set, with the row of its author.
\<close>

datatype tweet_with_user =
  Tweet_with_user int int "string option" "string option" datetime "int option" int int int
    twitter_user

definition TweetDAL_filter ::
  "sql_engine \<Rightarrow> criterion set \<Rightarrow> bool \<Rightarrow> tweet_with_user list stmt" where
  "TweetDAL_filter sql filters exclude_content t =
     (let has_hashtag_filters = (\<exists>e\<in>filters. left_key e = ''hashtag'');
          stmt =
            (if has_hashtag_filters
             then \<lparr>select_count = False,
                   select_from = [Tweet_table, TwitterUser_table, TweetHashtag_table, Hashtag_table],
                   select_distinct = True,
                   select_where = [Tweet_user_id_eq_TwitterUser_id,
                                   Tweet_id_eq_TweetHashtag_tweet_id,
                                   Hashtag_id_eq_TweetHashtag_hashtag_id],
                   select_filter = filters\<rparr>
             else \<lparr>select_count = False,
                   select_from = [Tweet_table, TwitterUser_table],
                   select_distinct = False,
                   select_where = [Tweet_user_id_eq_TwitterUser_id],
                   select_filter = filters\<rparr>);
          data = map (\<lambda>(tw, tw_user).
                   Tweet_with_user (tw_id tw) (tw_user_id tw)
                     (if \<not> exclude_content then Some (tw_content tw) else None)
                     (tw_language tw) (tw_created_at tw) (tw_sentiment_score tw)
                     (tw_like_count tw) (tw_retweet_count tw) (tw_reply_count tw) tw_user)
                 (fetchall sql stmt t)
      in Inr (data, t))"

definition TweetDAL_count_if :: "sql_engine \<Rightarrow> criterion set \<Rightarrow> int stmt" where
  "TweetDAL_count_if sql filters t =
     Inr (scalar_one sql
            \<lparr>select_count = True,
             select_from = [Tweet_table, TwitterUser_table],
             select_distinct = False,
             select_where = [Tweet_user_id_eq_TwitterUser_id],
             select_filter = filters\<rparr> t, t)"

text \<open>
  \<open>filter_by\<close> returns \<open>result\<close> from its \<open>finally\<close> block and never binds it in the
  handler; \<open>count_if\<close> sets it to 0 there.
\<close>

definition TweetBLL_filter_by ::
  "sql_engine \<Rightarrow> int option \<Rightarrow> string option \<Rightarrow> datetime \<Rightarrow> datetime \<Rightarrow> string list option
    \<Rightarrow> Between option \<Rightarrow> string option \<Rightarrow> bool \<Rightarrow> store
    \<Rightarrow> (exn + tweet_with_user list) \<times> store" where
  "TweetBLL_filter_by sql user_id username since until hashtags sentiment_score language
      exclude_content s =
     (let (session, s) = create_session s;
          filters = TweetBLL_build_filters user_id username since until hashtags
                      sentiment_score language in
      case execute session (TweetDAL_filter sql filters exclude_content) s of
        (Inl e, s) \<Rightarrow> (Inl UnboundLocalError, close session s)
      | (Inr result, s) \<Rightarrow> (Inr result, close session s))"

definition TweetBLL_count_if ::
  "sql_engine \<Rightarrow> int option \<Rightarrow> string option \<Rightarrow> datetime \<Rightarrow> datetime \<Rightarrow> string list option
    \<Rightarrow> Between option \<Rightarrow> string option \<Rightarrow> store \<Rightarrow> int \<times> store" where
  "TweetBLL_count_if sql user_id username since until hashtags sentiment_score language s =
     (let (session, s) = create_session s;
          filters = TweetBLL_build_filters user_id username since until hashtags
                      sentiment_score language in
      case execute session (TweetDAL_count_if sql filters) s of
        (Inl e, s) \<Rightarrow> (0, close session s)
      | (Inr result, s) \<Rightarrow> (result, close session s))"

section \<open>The properties of the tag registry, in the words of the specification\<close>

text \<open>
  \<open>same_id_one_row\<close>: two calls in a row with the same text return the same id, the
  second call writes nothing, and afterwards exactly one row has the text; the first
  call writes nothing either when the text was there, and adds one row otherwise.
  \<open>duplicate_returns_existing\<close>: with another caller \<open>rival\<close> who committed the text
  between the lookup and the insert, the call returns the id of the rival's row and
  leaves the tables as the rival committed them.
\<close>

definition same_id_one_row ::
  "((tables \<Rightarrow> tables) \<Rightarrow> string \<Rightarrow> store \<Rightarrow> (exn + int) \<times> store) \<Rightarrow> (tables \<Rightarrow> tag list)
    \<Rightarrow> string \<Rightarrow> store \<Rightarrow> bool" where
  "same_id_one_row get_or_create tab text s =
     (\<exists>i s1 s2. get_or_create (\<lambda>t. t) text s = (Inr i, s1)
        \<and> get_or_create (\<lambda>t. t) text s1 = (Inr i, s2)
        \<and> committed s2 = committed s1
        \<and> map tag_id (filter (\<lambda>r. tag_text r = text) (tab (committed s2))) = [i]
        \<and> (if list_ex (\<lambda>r. tag_text r = text) (tab (committed s))
            then committed s1 = committed s
            else tab (committed s1) = tab (committed s) @ [Tag i text 0]))"

definition duplicate_returns_existing ::
  "((tables \<Rightarrow> tables) \<Rightarrow> string \<Rightarrow> store \<Rightarrow> (exn + int) \<times> store) \<Rightarrow> (tables \<Rightarrow> tag list)
    \<Rightarrow> string \<Rightarrow> (tables \<Rightarrow> tables) \<Rightarrow> store \<Rightarrow> bool" where
  "duplicate_returns_existing get_or_create tab text rival s =
     (\<exists>r s1. filter (\<lambda>x. tag_text x = text) (tab (rival (committed s))) = [r]
        \<and> get_or_create rival text s = (Inr (tag_id r), s1)
        \<and> committed s1 = rival (committed s))"

section \<open>A small store for worked examples\<close>

definition alice_tables :: tables where
  "alice_tables =
     \<lparr>twitter_user_tab = [TwitterUser 100 ''alice'' ''Alice'' 5],
      tweet_tab = [], hashtag_tab = [], topic_tab = [],
      tweet_hashtag_tab = [], tweet_topic_tab = []\<rparr>"

definition store_of :: "tables \<Rightarrow> nat list \<Rightarrow> store" where
  "store_of t fs = \<lparr>committed = t, sessions = [], next_session = 0, tick = 0, faults = fs\<rparr>"

definition linked_tables :: tables where
  "linked_tables =
     \<lparr>twitter_user_tab = [TwitterUser 100 ''alice'' ''Alice'' 5],
      tweet_tab = [Tweet 1 100 ''Hello #btc'' None 5 None 0 0 0],
      hashtag_tab = [Tag 1 ''btc'' 0],
      topic_tab = [Tag 1 ''a'' 0, Tag 2 ''b'' 0],
      tweet_hashtag_tab = [TweetHashtag 1 1], tweet_topic_tab = []\<rparr>"

text \<open>Another caller that commits the tag \<open>x\<close> with id 7.\<close>

definition rival_hashtag_x :: "tables \<Rightarrow> tables" where
  "rival_hashtag_x t = t\<lparr>hashtag_tab := hashtag_tab t @ [Tag 7 ''x'' 0]\<rparr>"

definition rival_topic_x :: "tables \<Rightarrow> tables" where
  "rival_topic_x t = t\<lparr>topic_tab := topic_tab t @ [Tag 7 ''x'' 0]\<rparr>"

section \<open>The filter builder\<close>

lemma build_filters_sentiment:
  "TweetBLL_build_filters u n s t h (Some b) l =
     insert (Tweet_sentiment_score_ge (low b)) (insert (Tweet_sentiment_score_le (high b))
       (TweetBLL_build_filters u n s t h None l))"
  by (auto simp: TweetBLL_build_filters_def truthy_obj_def Let_def)

text \<open>
  C10: the \<open>inclusive\<close> flag of a \<open>Between\<close> is never read. The sentiment criterion adds
  exactly the two inclusive bounds \<open>sentiment_score >= low\<close> and \<open>sentiment_score <= high\<close>
  to the filters of the other criteria, which hold no bound on the sentiment score;
  the filter set, and with it what \<open>filter_by\<close> and \<open>count_if\<close> return, is the same for
  \<open>inclusive=True\<close> and \<open>inclusive=False\<close>.
\<close>

theorem between_inclusive_ignored:
  "TweetBLL_build_filters u n s t h (Some \<lparr>low = lo, high = hi, inclusive = i\<rparr>) l
     = {Tweet_sentiment_score_ge lo, Tweet_sentiment_score_le hi}
         \<union> TweetBLL_build_filters u n s t h None l
   \<and> Tweet_sentiment_score_ge x \<notin> TweetBLL_build_filters u n s t h None l
   \<and> Tweet_sentiment_score_le x \<notin> TweetBLL_build_filters u n s t h None l
   \<and> TweetBLL_build_filters u n s t h (Some \<lparr>low = lo, high = hi, inclusive = True\<rparr>) l
     = TweetBLL_build_filters u n s t h (Some \<lparr>low = lo, high = hi, inclusive = False\<rparr>) l
   \<and> TweetBLL_filter_by sql u n s t h (Some \<lparr>low = lo, high = hi, inclusive = True\<rparr>) l ex st
     = TweetBLL_filter_by sql u n s t h (Some \<lparr>low = lo, high = hi, inclusive = False\<rparr>) l ex st
   \<and> TweetBLL_count_if sql u n s t h (Some \<lparr>low = lo, high = hi, inclusive = True\<rparr>) l st
     = TweetBLL_count_if sql u n s t h (Some \<lparr>low = lo, high = hi, inclusive = False\<rparr>) l st"
proof -
  have eq: "TweetBLL_build_filters u n s t h (Some \<lparr>low = lo, high = hi, inclusive = True\<rparr>) l
     = TweetBLL_build_filters u n s t h (Some \<lparr>low = lo, high = hi, inclusive = False\<rparr>) l"
    by (simp add: build_filters_sentiment)
  have "TweetBLL_build_filters u n s t h (Some \<lparr>low = lo, high = hi, inclusive = i\<rparr>) l
     = {Tweet_sentiment_score_ge lo, Tweet_sentiment_score_le hi}
         \<union> TweetBLL_build_filters u n s t h None l"
    by (simp add: build_filters_sentiment)
  moreover have "Tweet_sentiment_score_ge x \<notin> TweetBLL_build_filters u n s t h None l"
    "Tweet_sentiment_score_le x \<notin> TweetBLL_build_filters u n s t h None l"
    by (auto simp: TweetBLL_build_filters_def truthy_obj_def Let_def)
  ultimately show ?thesis
    using eq by (simp add: TweetBLL_filter_by_def TweetBLL_count_if_def)
qed

text \<open>
  C5, evaluated on the code: with every criterion left at its default, \<open>since\<close> at
  \<open>datetime.min\<close> and \<open>until\<close> at \<open>datetime.max\<close>, the filter set is not empty.
  The test for \<open>until\<close> compares with \<open>datetime.min\<close>, so the default upper bound is
  added as the predicate \<open>created_at <= datetime.max\<close>.
\<close>

theorem build_filters_defaults:
  "TweetBLL_build_filters None None datetime_min datetime_max None None None
     = {Tweet_created_at_le datetime_max}"
  by (simp add: TweetBLL_build_filters_def truthy_int_def truthy_list_def truthy_obj_def
      datetime_min_def datetime_max_def)

section \<open>Author upsert\<close>

lemma find_map_upd:
  "find P xs = Some r \<Longrightarrow> (\<And>x. P x \<Longrightarrow> P r') \<Longrightarrow>
   find P (map (\<lambda>x. if P x then r' else x) xs) = Some r'"
  by (induction xs) (auto split: if_splits)

text \<open>
  C8: an author upsert on an existing id that the store accepts. With a timestamp
  strictly newer than the stored \<open>last_updated\<close>, the row holds the incoming username,
  display name and timestamp; with an earlier or equal one the row is left as it was.
\<close>

theorem author_upsert_last_writer_wins:
  assumes "find (\<lambda>r. tu_id r = uid) (twitter_user_tab t) = Some r"
    and "TwitterUserDAL_upsert uid username display_name last_updated t = Inr (n, t')"
  shows "find (\<lambda>r. tu_id r = uid) (twitter_user_tab t') =
           Some (if tu_last_updated r < last_updated
                 then TwitterUser uid username display_name last_updated else r)"
proof -
  let ?r' = "user_case_update username display_name last_updated r"
  from assms(1) have idr: "tu_id r = uid"
    by (auto dest: find_Some_iff [THEN iffD1])
  have tab: "twitter_user_tab t' =
      map (\<lambda>x. if tu_id x = uid then ?r' else x) (twitter_user_tab t)"
    using assms by (auto simp: TwitterUserDAL_upsert_def Let_def split: if_splits)
  have "tu_id ?r' = uid"
    using idr by (simp add: user_case_update_def)
  then have "find (\<lambda>r. tu_id r = uid) (twitter_user_tab t') = Some ?r'"
    unfolding tab using assms(1) by (intro find_map_upd) auto
  moreover have "?r' = (if tu_last_updated r < last_updated
                 then TwitterUser uid username display_name last_updated else r)"
    using idr by (cases r) (simp add: user_case_update_def)
  ultimately show ?thesis by simp
qed

theorem author_upsert_last_writer_wins_witness:
  "find (\<lambda>r. tu_id r = 100)
      (twitter_user_tab (snd (projr (TwitterUserDAL_upsert 100 ''bob'' ''Bob'' 7 alice_tables))))
     = Some (TwitterUser 100 ''bob'' ''Bob'' 7)
   \<and> find (\<lambda>r. tu_id r = 100)
      (twitter_user_tab (snd (projr (TwitterUserDAL_upsert 100 ''bob'' ''Bob'' 5 alice_tables))))
     = Some (TwitterUser 100 ''alice'' ''Alice'' 5)"
proof -
  have f: "find (\<lambda>r. tu_id r = 100) (twitter_user_tab alice_tables)
      = Some (TwitterUser 100 ''alice'' ''Alice'' 5)"
    by (simp add: alice_tables_def)
  have u7: "TwitterUserDAL_upsert 100 ''bob'' ''Bob'' 7 alice_tables
      = Inr (2, alice_tables\<lparr>twitter_user_tab := [TwitterUser 100 ''bob'' ''Bob'' 7]\<rparr>)"
    by (simp add: TwitterUserDAL_upsert_def user_case_update_def alice_tables_def)
  have u5: "TwitterUserDAL_upsert 100 ''bob'' ''Bob'' 5 alice_tables
      = Inr (1, alice_tables\<lparr>twitter_user_tab := [TwitterUser 100 ''alice'' ''Alice'' 5]\<rparr>)"
    by (simp add: TwitterUserDAL_upsert_def user_case_update_def alice_tables_def)
  show ?thesis
    using author_upsert_last_writer_wins [OF f u7] author_upsert_last_writer_wins [OF f u5]
    by (simp add: u7 u5)
qed

section \<open>Failures of write operations\<close>

text \<open>
  C2, evaluated on the code. Deleting the hashtag 1 while a link row references it
  makes the store refuse the statement: \<open>BaseBLL.delete\<close> raises \<open>UnboundLocalError\<close>
  and \<open>BaseBLL.delete_all\<close> returns \<open>None\<close>. Deleting the tweet 1 when the store fails
  at the commit (the second round trip) returns the row count 1 of the statement that
  was rolled back. None of the three returns 0.
\<close>

theorem delete_on_failure:
  "fst (BaseBLL_delete Hashtag 1 (store_of linked_tables [])) = Inl UnboundLocalError
   \<and> fst (BaseBLL_delete Tweet_entity 1 (store_of linked_tables [1])) = Inr 1
   \<and> committed (snd (BaseBLL_delete Tweet_entity 1 (store_of linked_tables [1]))) = linked_tables
   \<and> fst (BaseBLL_delete_all Hashtag (store_of linked_tables [])) = None"
  by code_simp

section \<open>Sessions left open\<close>

text \<open>
  C3, evaluated on the code. Another caller commits the tag \<open>x\<close> between the lookup and
  the insert, so the insert fails on the duplicate. The call returns the id 7 of the
  row that now exists, and the session 0 that it created first is still open: the
  handler bound \<open>session\<close> to the session 1, and only that one was closed.
\<close>

theorem insert_if_not_exists_leaves_session:
  "fst (HashtagBLL_insert_if_not_exists rival_hashtag_x ''x'' (store_of alice_tables [])) = Inr 7
   \<and> map fst (sessions (snd (HashtagBLL_insert_if_not_exists rival_hashtag_x ''x''
        (store_of alice_tables [])))) = [0]
   \<and> fst (TopicBLL_insert_if_not_exists rival_topic_x ''x'' (store_of alice_tables [])) = Inr 7
   \<and> map fst (sessions (snd (TopicBLL_insert_if_not_exists rival_topic_x ''x''
        (store_of alice_tables [])))) = [0]"
  by code_simp

section \<open>Order of the topic links\<close>

text \<open>
  C4, evaluated on the code. The topics \<open>a\<close> and \<open>b\<close> have the ids 1 and 2, and the
  caller gives the list \<open>['b', 'a']\<close>. The ids 2 and 1 are added to a Python set, and
  CPython iterates the set of these two small integers as 1, 2 (here \<open>sort\<close>). The link
  of \<open>a\<close>, the second topic of the caller, gets \<open>sort_order\<close> 0 and the link of \<open>b\<close>, the
  first one, gets 1.
\<close>

theorem topic_links_in_set_order:
  "Tweet_topic_links
     (committed (snd (TweetBLL_upsert is_word remdups sort 1 100 ''alice'' ''Alice''
        (Some ''Hello #btc'') None 5 None 0 0 0 (Some [''b'', ''a''])
        (store_of linked_tables [])))) 1
   = [TweetTopic 1 1 0, TweetTopic 1 2 1]"
  by code_simp

section \<open>Basic facts about sessions\<close>

lemma get_put [simp]: "get_session sid (put_session sid x s) = x"
  by (simp add: get_session_def put_session_def)

lemma put_fields [simp]:
  "committed (put_session sid x s) = committed s"
  "faults (put_session sid x s) = faults s"
  "tick (put_session sid x s) = tick s"
  by (simp_all add: put_session_def)

lemma round_trip_fields [simp]:
  "committed (round_trip s) = committed s"
  "faults (round_trip s) = faults s"
  "get_session sid (round_trip s) = get_session sid s"
  by (simp_all add: round_trip_def get_session_def split: option.splits)

lemma create_sessionD:
  "create_session s = (sid, s') \<Longrightarrow>
     get_session sid s' = \<lparr>work = committed s, new = []\<rparr>
     \<and> committed s' = committed s \<and> faults s' = faults s"
  by (auto simp: create_session_def get_session_def)

lemma close_fields [simp]:
  "committed (close sid s) = committed s"
  "faults (close sid s) = faults s"
  by (simp_all add: close_def)

lemma rollback_fields [simp]:
  "committed (rollback sid s) = committed s"
  "faults (rollback sid s) = faults s"
  by (simp_all add: rollback_def)

lemma add_all_fields [simp]:
  "committed (add_all sid objs s) = committed s"
  "faults (add_all sid objs s) = faults s"
  "tick (add_all sid objs s) = tick s"
  "get_session sid (add_all sid objs s) =
     (get_session sid s)\<lparr>new := new (get_session sid s) @ objs\<rparr>"
  by (simp_all add: add_all_def)

lemma concurrently_id [simp]: "concurrently (\<lambda>t. t) s = s"
  by (simp add: concurrently_def)

lemma executeD:
  "execute sid stmt s = (r, s') \<Longrightarrow>
     committed s' = committed s \<and> faults s' = faults s
     \<and> new (get_session sid s') = new (get_session sid s)
     \<and> (case r of
          Inl e \<Rightarrow> work (get_session sid s') = work (get_session sid s)
        | Inr a \<Rightarrow> tick s \<notin> set (faults s)
            \<and> (\<exists>t'. stmt (work (get_session sid s)) = Inr (a, t')
                  \<and> work (get_session sid s') = t'))"
  by (auto simp: execute_def split: if_splits sum.splits)

lemma commitD:
  "commit sid s = (r, s') \<Longrightarrow>
     faults s' = faults s
     \<and> (case r of
          Inl e \<Rightarrow> committed s' = committed s
        | Inr a \<Rightarrow> tick s \<notin> set (faults s)
            \<and> (\<exists>t'. flush (new (get_session sid s)) (work (get_session sid s)) = Inr t'
                  \<and> committed s' = t'))"
  by (auto simp: commit_def split: if_splits sum.splits)

lemma flush_frame:
  "flush objs t = Inr t' \<Longrightarrow>
     tweet_tab t' = tweet_tab t \<and> twitter_user_tab t' = twitter_user_tab t
     \<and> hashtag_tab t' = hashtag_tab t \<and> topic_tab t' = topic_tab t"
  by (induction objs t rule: flush.induct) (auto split: if_splits)

section \<open>What the steps of the ingestion upsert leave unchanged\<close>

lemma on_duplicate_frame:
  assumes "on_duplicate find_by v i s = (r, s')"
  shows "committed s' = committed s \<and> faults s' = faults s"
  using assms
  by (auto simp: on_duplicate_def split: prod.splits sum.splits option.splits
      dest!: create_sessionD executeD)

lemma insert_if_not_exists_frame:
  assumes "insert_if_not_exists find_by ins (\<lambda>t. t) v s = (r, s')"
    and "\<And>v t r t'. find_by v t = Inr (r, t') \<Longrightarrow> t' = t"
    and "\<And>v t i t'. ins v t = Inr (i, t') \<Longrightarrow> f t' = f t"
  shows "f (committed s') = f (committed s) \<and> faults s' = faults s"
  using assms(1)
  by (auto simp: insert_if_not_exists_def split: prod.splits sum.splits option.splits
      dest!: create_sessionD executeD commitD on_duplicate_frame assms(2,3))

lemma HashtagDAL_find_same: "HashtagDAL_find_by_hashtag v t = Inr (r, t') \<Longrightarrow> t' = t"
  by (auto simp: HashtagDAL_find_by_hashtag_def split: sum.splits)

lemma TopicDAL_find_same: "TopicDAL_find_by_title v t = Inr (r, t') \<Longrightarrow> t' = t"
  by (auto simp: TopicDAL_find_by_title_def split: sum.splits)

lemma HashtagDAL_insert_frame:
  "HashtagDAL_insert v t = Inr (i, t') \<Longrightarrow>
     tweet_tab t' = tweet_tab t \<and> twitter_user_tab t' = twitter_user_tab t
     \<and> topic_tab t' = topic_tab t \<and> tweet_hashtag_tab t' = tweet_hashtag_tab t
     \<and> tweet_topic_tab t' = tweet_topic_tab t"
  by (auto simp: HashtagDAL_insert_def Let_def split: sum.splits)

lemma TopicDAL_insert_frame:
  "TopicDAL_insert v t = Inr (i, t') \<Longrightarrow>
     tweet_tab t' = tweet_tab t \<and> twitter_user_tab t' = twitter_user_tab t
     \<and> hashtag_tab t' = hashtag_tab t \<and> tweet_hashtag_tab t' = tweet_hashtag_tab t
     \<and> tweet_topic_tab t' = tweet_topic_tab t"
  by (auto simp: TopicDAL_insert_def Let_def split: sum.splits)

lemma HashtagBLL_frame:
  assumes "HashtagBLL_insert_if_not_exists (\<lambda>t. t) v s = (r, s')"
  shows "tweet_tab (committed s') = tweet_tab (committed s)
    \<and> twitter_user_tab (committed s') = twitter_user_tab (committed s)
    \<and> faults s' = faults s"
proof -
  note a = assms [unfolded HashtagBLL_insert_if_not_exists_def]
  have "tweet_tab (committed s') = tweet_tab (committed s) \<and> faults s' = faults s"
    by (rule insert_if_not_exists_frame [OF a HashtagDAL_find_same])
       (simp_all add: HashtagDAL_insert_frame)
  moreover have "twitter_user_tab (committed s') = twitter_user_tab (committed s)
      \<and> faults s' = faults s"
    by (rule insert_if_not_exists_frame [OF a HashtagDAL_find_same])
       (simp_all add: HashtagDAL_insert_frame)
  ultimately show ?thesis by simp
qed

lemma TopicBLL_frame:
  assumes "TopicBLL_insert_if_not_exists (\<lambda>t. t) v s = (r, s')"
  shows "tweet_tab (committed s') = tweet_tab (committed s)
    \<and> twitter_user_tab (committed s') = twitter_user_tab (committed s)
    \<and> hashtag_tab (committed s') = hashtag_tab (committed s)
    \<and> tweet_hashtag_tab (committed s') = tweet_hashtag_tab (committed s)
    \<and> faults s' = faults s"
proof -
  note a = assms [unfolded TopicBLL_insert_if_not_exists_def]
  have "tweet_tab (committed s') = tweet_tab (committed s) \<and> faults s' = faults s"
    by (rule insert_if_not_exists_frame [OF a TopicDAL_find_same])
       (simp_all add: TopicDAL_insert_frame)
  moreover have "twitter_user_tab (committed s') = twitter_user_tab (committed s)
      \<and> faults s' = faults s"
    by (rule insert_if_not_exists_frame [OF a TopicDAL_find_same])
       (simp_all add: TopicDAL_insert_frame)
  moreover have "hashtag_tab (committed s') = hashtag_tab (committed s) \<and> faults s' = faults s"
    by (rule insert_if_not_exists_frame [OF a TopicDAL_find_same])
       (simp_all add: TopicDAL_insert_frame)
  moreover have "tweet_hashtag_tab (committed s') = tweet_hashtag_tab (committed s)
      \<and> faults s' = faults s"
    by (rule insert_if_not_exists_frame [OF a TopicDAL_find_same])
       (simp_all add: TopicDAL_insert_frame)
  ultimately show ?thesis by simp
qed

lemma insert_each_frame:
  assumes "insert_each g es s = (r, s')"
    and "\<And>e s r s'. g e s = (r, s') \<Longrightarrow> P s' = P s"
  shows "P s' = P s"
  using assms(1)
proof (induction es arbitrary: s r s')
  case Nil
  then show ?case by simp
next
  case (Cons e es)
  then show ?case
    by (auto split: prod.splits sum.splits dest: assms(2))
qed

lemma TweetHashtagBLL_insert_frame:
  assumes "TweetHashtagBLL_insert tid ids s = (r, s')"
  shows "tweet_tab (committed s') = tweet_tab (committed s)
    \<and> twitter_user_tab (committed s') = twitter_user_tab (committed s)
    \<and> faults s' = faults s"
  using assms
  by (auto simp: TweetHashtagBLL_insert_def TweetHashtagDAL_delete_by_tweet_id_def Let_def
      split: prod.splits sum.splits
      dest!: create_sessionD executeD commitD flush_frame)

lemma TweetTopicBLL_insert_frame:
  assumes "TweetTopicBLL_insert tid ids s = (r, s')"
  shows "tweet_tab (committed s') = tweet_tab (committed s)
    \<and> twitter_user_tab (committed s') = twitter_user_tab (committed s)
    \<and> hashtag_tab (committed s') = hashtag_tab (committed s)
    \<and> faults s' = faults s"
  using assms
  by (auto simp: TweetTopicBLL_insert_def TweetTopicDAL_delete_by_tweet_id_def Let_def
      split: prod.splits sum.splits
      dest!: create_sessionD executeD commitD flush_frame)

lemma TweetBLL_upsert_finally_frame:
  assumes "TweetBLL_upsert_finally word_char iter_str iter_int tid content topics n s = (r, s')"
  shows "tweet_tab (committed s') = tweet_tab (committed s)
    \<and> twitter_user_tab (committed s') = twitter_user_tab (committed s)
    \<and> faults s' = faults s
    \<and> (r = Inr n \<or> (\<exists>e. r = Inl e))"
proof -
  let ?P = "\<lambda>s. (tweet_tab (committed s), twitter_user_tab (committed s), faults s)"
  have h: "\<And>es s r s'. insert_each (HashtagBLL_insert_if_not_exists (\<lambda>t. t)) es s = (r, s')
      \<Longrightarrow> ?P s' = ?P s"
    by (erule insert_each_frame) (auto dest: HashtagBLL_frame)
  have t: "\<And>es s r s'. insert_each (TopicBLL_insert_if_not_exists (\<lambda>t. t)) es s = (r, s')
      \<Longrightarrow> ?P s' = ?P s"
    by (erule insert_each_frame) (auto dest: TopicBLL_frame)
  show ?thesis
    using assms
    by (auto simp: TweetBLL_upsert_finally_def Let_def
        split: option.splits prod.splits sum.splits if_splits
        dest!: h t TweetHashtagBLL_insert_frame TweetTopicBLL_insert_frame)
qed

section \<open>The transaction of the ingestion upsert\<close>

lemma TweetBLL_upsert_try_fails:
  assumes "TweetBLL_upsert_try sid tid uid un dn c l cr ss lc rc rp s = (Inl e, s')"
  shows "committed s' = committed s \<and> faults s' = faults s"
  using assms
  by (auto simp: TweetBLL_upsert_try_def split: prod.splits sum.splits
      dest!: executeD commitD)

lemma TweetBLL_upsert_try_succeeds:
  assumes "TweetBLL_upsert_try sid tid uid un dn c l cr ss lc rc rp s = (Inr n, s')"
    and "get_session sid s = \<lparr>work = committed s, new = []\<rparr>"
  shows "\<exists>k t1. TwitterUserDAL_upsert uid un dn cr (committed s) = Inr (k, t1)
      \<and> TweetDAL_upsert tid uid c l cr ss lc rc rp t1 = Inr (n, committed s')
      \<and> faults s' = faults s"
  using assms
  by (auto simp: TweetBLL_upsert_try_def split: prod.splits sum.splits
      dest!: executeD commitD)

lemma find_append_new:
  "find P xs = None \<Longrightarrow> P x \<Longrightarrow> find P (xs @ [x]) = Some x"
  by (induction xs) (auto split: if_splits)

lemma TweetDAL_upsert_stored:
  assumes "TweetDAL_upsert tid uid c l cr ss lc rc rp t = Inr (n, t')"
  shows "\<exists>r. find (\<lambda>r. tw_id r = tid) (tweet_tab t') = Some r
      \<and> Some (tw_content r) = c \<and> tw_language r = l \<and> n \<noteq> 0
      \<and> hashtag_tab t' = hashtag_tab t \<and> tweet_hashtag_tab t' = tweet_hashtag_tab t"
proof -
  obtain x where c: "c = Some x"
    using assms by (auto simp: TweetDAL_upsert_def split: option.splits)
  show ?thesis
  proof (cases "find (\<lambda>r. tw_id r = tid) (tweet_tab t)")
    case None
    then show ?thesis
      using assms c
      by (auto simp: TweetDAL_upsert_def find_append_new split: if_splits)
  next
    case (Some r0)
    let ?r = "Tweet tid (tw_user_id r0) x l cr ss lc rc rp"
    have "find (\<lambda>r. tw_id r = tid)
        (map (\<lambda>x. if tw_id x = tid then ?r else x) (tweet_tab t)) = Some ?r"
      by (rule find_map_upd [OF Some]) simp
    moreover have "t' = t\<lparr>tweet_tab :=
        map (\<lambda>x. if tw_id x = tid then ?r else x) (tweet_tab t)\<rparr> \<and> n \<noteq> 0"
      using assms c Some
      by (auto simp: TweetDAL_upsert_def Let_def split: if_splits)
    ultimately show ?thesis
      using c by simp
  qed
qed


lemma TweetBLL_upsert_unfold:
  assumes "create_session s = (sid, s1)"
  shows "TweetBLL_upsert word_char iter_str iter_int tid uid un dn content language cr ss lc rc rp topics s =
    (case TweetBLL_upsert_try sid tid uid un dn (truncated 280 content) (truncated 5 language)
            cr ss lc rc rp s1 of
       (Inl e, s2) \<Rightarrow> TweetBLL_upsert_finally word_char iter_str iter_int tid (truncated 280 content) topics 0
                        (close sid (rollback sid s2))
     | (Inr n, s2) \<Rightarrow> TweetBLL_upsert_finally word_char iter_str iter_int tid (truncated 280 content) topics n
                        (close sid s2))"
  using assms
  by (simp add: TweetBLL_upsert_def Let_def split: prod.splits sum.splits)

lemma truncated_Some:
  "truncated n (Some c) = Some (take n c)"
  by (simp add: truncated_def)

lemma truncated_map: "truncated n x = map_option (take n) x"
  by (cases x) (simp_all add: truncated_def)

text \<open>
  C9: the normalize step truncates. After an ingestion upsert that returns a row count
  other than 0, the stored tweet holds the first 280 characters of the text it was
  given (exactly 280 of them when the text was longer) and the first 5 characters of
  the language code.
\<close>

theorem upsert_truncates:
  assumes "TweetBLL_upsert word_char iter_str iter_int tweet_id twitter_user_id username display_name
             (Some content) language created_at sentiment_score like_count retweet_count
             reply_count topics s = (Inr n, s')"
    and "n \<noteq> 0"
  shows "\<exists>r. find_by_id (committed s') tweet_id = Some r
      \<and> tw_content r = take 280 content
      \<and> tw_language r = map_option (take 5) language
      \<and> (280 < length content \<longrightarrow> length (tw_content r) = 280)"
proof -
  obtain session s1 where cs: "create_session s = (session, s1)"
    by (cases "create_session s")
  note c1 = create_sessionD [OF cs]
  obtain r2 s2 where tr: "TweetBLL_upsert_try session tweet_id twitter_user_id username
      display_name (truncated 280 (Some content)) (truncated 5 language) created_at
      sentiment_score like_count retweet_count reply_count s1 = (r2, s2)"
    by (cases "TweetBLL_upsert_try session tweet_id twitter_user_id username
      display_name (truncated 280 (Some content)) (truncated 5 language) created_at
      sentiment_score like_count retweet_count reply_count s1")
  show ?thesis
  proof (cases r2)
    case (Inl e)
    then have "TweetBLL_upsert_finally word_char iter_str iter_int tweet_id (truncated 280 (Some content))
        topics 0 (close session (rollback session s2)) = (Inr n, s')"
      using assms(1) tr by (simp add: TweetBLL_upsert_unfold [OF cs])
    from TweetBLL_upsert_finally_frame [OF this] assms(2) show ?thesis
      by simp
  next
    case (Inr m)
    then have fin: "TweetBLL_upsert_finally word_char iter_str iter_int tweet_id
        (truncated 280 (Some content)) topics m (close session s2) = (Inr n, s')"
      using assms(1) tr by (simp add: TweetBLL_upsert_unfold [OF cs])
    have gs: "get_session session s1 = \<lparr>work = committed s1, new = []\<rparr>"
      using c1 by simp
    from TweetBLL_upsert_try_succeeds [OF tr [unfolded Inr] gs]
    obtain k t1 where up: "TweetDAL_upsert tweet_id twitter_user_id (truncated 280 (Some content))
        (truncated 5 language) created_at sentiment_score like_count retweet_count reply_count t1
        = Inr (m, committed s2)"
      by blast
    from TweetDAL_upsert_stored [OF up]
    obtain r where r: "find (\<lambda>r. tw_id r = tweet_id) (tweet_tab (committed s2)) = Some r"
      "Some (tw_content r) = truncated 280 (Some content)"
      "tw_language r = truncated 5 language"
      by blast
    have "tweet_tab (committed s') = tweet_tab (committed s2)"
      using TweetBLL_upsert_finally_frame [OF fin] by simp
    then show ?thesis
      using r by (auto simp: find_by_id_def truncated_Some truncated_map)
  qed
qed

theorem upsert_truncates_witness:
  "\<exists>r. find_by_id (committed (snd (TweetBLL_upsert is_word remdups sort 1 100 ''alice'' ''Alice''
          (Some (replicate 300 CHR ''x'')) (Some ''zh-Hans'') 5 None 0 0 0 None
          (store_of alice_tables [])))) 1 = Some r
     \<and> tw_content r = replicate 280 CHR ''x'' \<and> tw_language r = Some ''zh-Ha''
     \<and> length (tw_content r) = 280"
proof -
  have h: "TweetBLL_upsert is_word remdups sort 1 100 ''alice'' ''Alice''
          (Some (replicate 300 CHR ''x'')) (Some ''zh-Hans'') 5 None 0 0 0 None
          (store_of alice_tables [])
      = (Inr 1, snd (TweetBLL_upsert is_word remdups sort 1 100 ''alice'' ''Alice''
          (Some (replicate 300 CHR ''x'')) (Some ''zh-Hans'') 5 None 0 0 0 None
          (store_of alice_tables [])))"
    by (rule prod_eqI) (code_simp, simp)
  show ?thesis
    using upsert_truncates [OF h] by simp
qed

section \<open>Failure of the author or the tweet upsert\<close>

text \<open>
  C1 as the code has it. When the \<open>try\<close> block of the ingestion upsert raises (the
  author upsert, the tweet upsert or the commit failed), the transaction is rolled
  back: the committed tables are those before the call when the \<open>finally\<close> part starts,
  and the authors and tweets are still the same when the call ends. The call returns
  0 unless a later step raises. The later steps are not skipped: the call ends as its
  \<open>finally\<close> part does on the rolled-back store, with the row count 0.
\<close>

theorem upsert_failure_rolls_back:
  assumes "create_session s = (session, s1)"
    and "TweetBLL_upsert_try session tweet_id twitter_user_id username display_name
           (truncated 280 content) (truncated 5 language) created_at sentiment_score
           like_count retweet_count reply_count s1 = (Inl e, s2)"
    and "TweetBLL_upsert word_char iter_str iter_int tweet_id twitter_user_id username display_name
           content language created_at sentiment_score like_count retweet_count
           reply_count topics s = (r, s')"
  shows "committed (close session (rollback session s2)) = committed s
    \<and> (r, s') = TweetBLL_upsert_finally word_char iter_str iter_int tweet_id (truncated 280 content)
                   topics 0 (close session (rollback session s2))
    \<and> tweet_tab (committed s') = tweet_tab (committed s)
    \<and> twitter_user_tab (committed s') = twitter_user_tab (committed s)
    \<and> (r = Inr 0 \<or> (\<exists>x. r = Inl x))"
proof -
  have c: "committed (close session (rollback session s2)) = committed s"
    using TweetBLL_upsert_try_fails [OF assms(2)] create_sessionD [OF assms(1)] by simp
  have fin: "TweetBLL_upsert_finally word_char iter_str iter_int tweet_id (truncated 280 content)
      topics 0 (close session (rollback session s2)) = (r, s')"
    using assms(2,3) by (simp add: TweetBLL_upsert_unfold [OF assms(1)])
  show ?thesis
    using TweetBLL_upsert_finally_frame [OF fin] c fin by simp
qed

theorem upsert_failure_rolls_back_witness:
  "tweet_tab (committed (snd (TweetBLL_upsert is_word remdups sort 1 100 ''alice'' ''Alice''
       (Some ''#eth'') None 9 None 0 0 0 None (store_of linked_tables [0]))))
     = [Tweet 1 100 ''Hello #btc'' None 5 None 0 0 0]
   \<and> twitter_user_tab (committed (snd (TweetBLL_upsert is_word remdups sort 1 100 ''alice'' ''Alice''
       (Some ''#eth'') None 9 None 0 0 0 None (store_of linked_tables [0]))))
     = [TwitterUser 100 ''alice'' ''Alice'' 5]"
proof -
  let ?S = "store_of linked_tables [0]"
  have h1: "create_session ?S = (0, snd (create_session ?S))"
    by (simp add: create_session_def store_of_def)
  have h2: "TweetBLL_upsert_try 0 1 100 ''alice'' ''Alice'' (truncated 280 (Some ''#eth''))
        (truncated 5 None) 9 None 0 0 0 (snd (create_session ?S))
      = (Inl OperationalError,
         snd (TweetBLL_upsert_try 0 1 100 ''alice'' ''Alice'' (truncated 280 (Some ''#eth''))
           (truncated 5 None) 9 None 0 0 0 (snd (create_session ?S))))"
    by (rule prod_eqI) (code_simp, simp)
  have h3: "TweetBLL_upsert is_word remdups sort 1 100 ''alice'' ''Alice''
       (Some ''#eth'') None 9 None 0 0 0 None ?S
     = (fst (TweetBLL_upsert is_word remdups sort 1 100 ''alice'' ''Alice''
          (Some ''#eth'') None 9 None 0 0 0 None ?S),
        snd (TweetBLL_upsert is_word remdups sort 1 100 ''alice'' ''Alice''
          (Some ''#eth'') None 9 None 0 0 0 None ?S))"
    by simp
  note w = upsert_failure_rolls_back [OF h1 h2 h3]
  have a: "tweet_tab (committed (snd (TweetBLL_upsert is_word remdups sort 1 100 ''alice'' ''Alice''
       (Some ''#eth'') None 9 None 0 0 0 None ?S))) = tweet_tab (committed ?S)"
    using w by blast
  have b: "twitter_user_tab (committed (snd (TweetBLL_upsert is_word remdups sort 1 100 ''alice''
       ''Alice'' (Some ''#eth'') None 9 None 0 0 0 None ?S))) = twitter_user_tab (committed ?S)"
    using w by blast
  have c: "committed ?S = linked_tables"
    by (simp add: store_of_def)
  show ?thesis
    unfolding a b c by (simp add: linked_tables_def)
qed

text \<open>
  C1 as it is stated fails on the code. The store fails at the first round trip, the
  author upsert, and the call returns 0; the tweet 1 keeps its text \<open>Hello #btc\<close>. Yet
  the later steps ran on the text \<open>#eth\<close> of the failed call: the hashtag \<open>eth\<close> was
  created and the link of the tweet to \<open>btc\<close> was replaced by a link to \<open>eth\<close>.
\<close>

theorem upsert_failure_runs_later_steps:
  "fst (execute 0 (TwitterUserDAL_upsert 100 ''alice'' ''Alice'' 9)
         (snd (create_session (store_of linked_tables [0])))) = Inl OperationalError
   \<and> fst (TweetBLL_upsert is_word remdups sort 1 100 ''alice'' ''Alice''
       (Some ''#eth'') None 9 None 0 0 0 None (store_of linked_tables [0])) = Inr 0
   \<and> hashtag_tab linked_tables = [Tag 1 ''btc'' 0]
   \<and> tweet_hashtag_tab linked_tables = [TweetHashtag 1 1]
   \<and> hashtag_tab (committed (snd (TweetBLL_upsert is_word remdups sort 1 100 ''alice'' ''Alice''
       (Some ''#eth'') None 9 None 0 0 0 None (store_of linked_tables [0]))))
     = [Tag 1 ''btc'' 0, Tag 2 ''eth'' 0]
   \<and> tweet_hashtag_tab (committed (snd (TweetBLL_upsert is_word remdups sort 1 100 ''alice'' ''Alice''
       (Some ''#eth'') None 9 None 0 0 0 None (store_of linked_tables [0]))))
     = [TweetHashtag 1 2]"
  by code_simp

section \<open>The tag registry when the store signals no failure\<close>

lemma create_session_simps [simp]:
  "committed (snd (create_session s)) = committed s"
  "faults (snd (create_session s)) = faults s"
  "get_session (fst (create_session s)) (snd (create_session s))
     = \<lparr>work = committed s, new = []\<rparr>"
  by (simp_all add: create_session_def get_session_def)

lemma concurrently_fields [simp]:
  "committed (concurrently rival s) = rival (committed s)"
  "faults (concurrently rival s) = faults s"
  "tick (concurrently rival s) = tick s"
  by (simp_all add: concurrently_def)

lemma map_of_work_upd:
  "map_of (map (\<lambda>p. (fst p, (snd p)\<lparr>work := f (work (snd p))\<rparr>)) xs) k
     = map_option (\<lambda>x. x\<lparr>work := f (work x)\<rparr>) (map_of xs k)"
  by (induction xs) auto

lemma concurrently_get [simp]:
  "get_session sid (concurrently rival s)
     = (get_session sid s)\<lparr>work := rival (work (get_session sid s))\<rparr>"
  by (simp add: concurrently_def get_session_def map_of_work_upd split: option.splits)

lemma execute_nofault:
  "faults s = [] \<Longrightarrow> execute sid stmt s =
     (case stmt (work (get_session sid s)) of
        Inl e \<Rightarrow> (Inl e, round_trip s)
      | Inr (a, t') \<Rightarrow>
          (Inr a, put_session sid ((get_session sid s)\<lparr>work := t'\<rparr>) (round_trip s)))"
  by (simp add: execute_def)

lemma commit_nofault:
  "faults s = [] \<Longrightarrow> new (get_session sid s) = [] \<Longrightarrow> commit sid s =
     (Inr (), (put_session sid \<lparr>work = work (get_session sid s), new = []\<rparr> (round_trip s))
                \<lparr>committed := work (get_session sid s)\<rparr>)"
  by (simp add: commit_def)

lemma store_update_fields [simp]:
  "faults (s\<lparr>committed := t\<rparr>) = faults s"
  by simp

lemma insert_if_not_exists_found:
  assumes "faults s = []"
    and "find_by v (committed s) = Inr (Some r, committed s)"
  shows "\<exists>s'. insert_if_not_exists find_by ins rival v s = (Inr (tag_id r), s')
      \<and> committed s' = committed s \<and> faults s' = []"
  using assms
  by (simp add: insert_if_not_exists_def case_prod_beta execute_nofault)

lemma insert_if_not_exists_created:
  assumes "faults s = []"
    and "find_by v (committed s) = Inr (None, committed s)"
    and "ins v (rival (committed s)) = Inr (i, t')"
  shows "\<exists>s'. insert_if_not_exists find_by ins rival v s = (Inr i, s')
      \<and> committed s' = t' \<and> faults s' = []"
  using assms
  by (simp add: insert_if_not_exists_def case_prod_beta execute_nofault commit_nofault)

lemma insert_if_not_exists_raced:
  assumes "faults s = []"
    and "find_by v (committed s) = Inr (None, committed s)"
    and "isl (ins v (rival (committed s)))"
    and "find_by v (rival (committed s)) = Inr (Some r, rival (committed s))"
  shows "\<exists>s'. insert_if_not_exists find_by ins rival v s = (Inr (tag_id r), s')
      \<and> committed s' = rival (committed s) \<and> faults s' = []"
proof -
  from assms(3) obtain e where "ins v (rival (committed s)) = Inl e"
    by (cases "ins v (rival (committed s))") auto
  then show ?thesis
    using assms(1,2,4)
    by (simp add: insert_if_not_exists_def on_duplicate_def case_prod_beta execute_nofault)
qed

lemma filter_text_unique:
  "distinct (map tag_text rows) \<Longrightarrow>
     filter (\<lambda>r. tag_text r = v) rows = []
     \<or> (\<exists>r. filter (\<lambda>r. tag_text r = v) rows = [r])"
proof (induction rows)
  case Nil
  then show ?case by simp
next
  case (Cons a rows)
  have "tag_text a \<notin> tag_text ` set rows"
    using Cons.prems by simp
  then have "\<forall>x\<in>set rows. tag_text x \<noteq> tag_text a"
    by (metis imageI)
  then have "tag_text a = v \<Longrightarrow> filter (\<lambda>r. tag_text r = v) rows = []"
    by (simp add: filter_empty_conv)
  with Cons show ?case by auto
qed

lemma scalar_one_or_none_simps [simp]:
  "scalar_one_or_none [] = Inr None"
  "scalar_one_or_none [r] = Inr (Some r)"
  by (simp_all add: scalar_one_or_none_def)

lemma list_ex_filter: "list_ex P xs \<longleftrightarrow> filter P xs \<noteq> []"
  by (induction xs) auto

lemma no_hash_filter: "CHR ''#'' \<notin> set v \<Longrightarrow> filter (\<lambda>c. c \<noteq> CHR ''#'') v = v"
  by (induction v) auto

lemma HashtagBLL_found:
  assumes "faults s = []"
    and "filter (\<lambda>r. tag_text r = v) (hashtag_tab (committed s)) = [r]"
  shows "\<exists>s'. HashtagBLL_insert_if_not_exists rival v s = (Inr (tag_id r), s')
      \<and> committed s' = committed s \<and> faults s' = []"
  unfolding HashtagBLL_insert_if_not_exists_def
  by (rule insert_if_not_exists_found [OF assms(1)])
     (simp add: HashtagDAL_find_by_hashtag_def assms(2))

lemma HashtagBLL_created:
  assumes "faults s = []"
    and "filter (\<lambda>r. tag_text r = v) (hashtag_tab (committed s)) = []"
    and "CHR ''#'' \<notin> set v"
    and "\<not> list_ex (\<lambda>r. tag_text r = v) (hashtag_tab (rival (committed s)))"
    and "length v \<le> 100"
  shows "\<exists>s'. HashtagBLL_insert_if_not_exists rival v s
        = (Inr (auto_increment (hashtag_tab (rival (committed s)))), s')
      \<and> committed s' = (rival (committed s))\<lparr>hashtag_tab := hashtag_tab (rival (committed s))
            @ [Tag (auto_increment (hashtag_tab (rival (committed s)))) v 0]\<rparr>
      \<and> faults s' = []"
  unfolding HashtagBLL_insert_if_not_exists_def
  by (rule insert_if_not_exists_created [OF assms(1)])
     (simp_all add: HashtagDAL_find_by_hashtag_def HashtagDAL_insert_def add_flush_def
        no_hash_filter not_less assms)

lemma HashtagBLL_raced:
  assumes "faults s = []"
    and "filter (\<lambda>r. tag_text r = v) (hashtag_tab (committed s)) = []"
    and "CHR ''#'' \<notin> set v"
    and "filter (\<lambda>r. tag_text r = v) (hashtag_tab (rival (committed s))) = [r]"
  shows "\<exists>s'. HashtagBLL_insert_if_not_exists rival v s = (Inr (tag_id r), s')
      \<and> committed s' = rival (committed s) \<and> faults s' = []"
  unfolding HashtagBLL_insert_if_not_exists_def
  by (rule insert_if_not_exists_raced [OF assms(1)])
     (simp_all add: HashtagDAL_find_by_hashtag_def HashtagDAL_insert_def add_flush_def
        no_hash_filter list_ex_filter assms)

lemma TopicBLL_found:
  assumes "faults s = []"
    and "filter (\<lambda>r. tag_text r = v) (topic_tab (committed s)) = [r]"
  shows "\<exists>s'. TopicBLL_insert_if_not_exists rival v s = (Inr (tag_id r), s')
      \<and> committed s' = committed s \<and> faults s' = []"
  unfolding TopicBLL_insert_if_not_exists_def
  by (rule insert_if_not_exists_found [OF assms(1)])
     (simp add: TopicDAL_find_by_title_def assms(2))

lemma TopicBLL_created:
  assumes "faults s = []"
    and "filter (\<lambda>r. tag_text r = v) (topic_tab (committed s)) = []"
    and "\<not> list_ex (\<lambda>r. tag_text r = v) (topic_tab (rival (committed s)))"
    and "length v \<le> 100"
  shows "\<exists>s'. TopicBLL_insert_if_not_exists rival v s
        = (Inr (auto_increment (topic_tab (rival (committed s)))), s')
      \<and> committed s' = (rival (committed s))\<lparr>topic_tab := topic_tab (rival (committed s))
            @ [Tag (auto_increment (topic_tab (rival (committed s)))) v 0]\<rparr>
      \<and> faults s' = []"
  unfolding TopicBLL_insert_if_not_exists_def
  by (rule insert_if_not_exists_created [OF assms(1)])
     (simp_all add: TopicDAL_find_by_title_def TopicDAL_insert_def add_flush_def not_less
        assms)

lemma TopicBLL_raced:
  assumes "faults s = []"
    and "filter (\<lambda>r. tag_text r = v) (topic_tab (committed s)) = []"
    and "filter (\<lambda>r. tag_text r = v) (topic_tab (rival (committed s))) = [r]"
  shows "\<exists>s'. TopicBLL_insert_if_not_exists rival v s = (Inr (tag_id r), s')
      \<and> committed s' = rival (committed s) \<and> faults s' = []"
  unfolding TopicBLL_insert_if_not_exists_def
  by (rule insert_if_not_exists_raced [OF assms(1)])
     (simp_all add: TopicDAL_find_by_title_def TopicDAL_insert_def add_flush_def
        list_ex_filter assms)

lemma same_id_one_row_intro:
  assumes found: "\<And>s r. faults s = [] \<Longrightarrow> filter (\<lambda>r. tag_text r = v) (tab (committed s)) = [r]
      \<Longrightarrow> \<exists>s'. goc (\<lambda>t. t) v s = (Inr (tag_id r), s') \<and> committed s' = committed s
            \<and> faults s' = []"
    and created: "filter (\<lambda>r. tag_text r = v) (tab (committed s)) = []
      \<Longrightarrow> \<exists>s'. goc (\<lambda>t. t) v s = (Inr (auto_increment (tab (committed s))), s')
            \<and> tab (committed s') = tab (committed s)
                 @ [Tag (auto_increment (tab (committed s))) v 0]
            \<and> faults s' = []"
    and "faults s = []"
    and "distinct (map tag_text (tab (committed s)))"
  shows "same_id_one_row goc tab v s"
proof -
  from filter_text_unique [OF assms(4), of v]
  consider "filter (\<lambda>r. tag_text r = v) (tab (committed s)) = []"
    | r where "filter (\<lambda>r. tag_text r = v) (tab (committed s)) = [r]"
    by blast
  then show ?thesis
  proof cases
    case 1
    let ?i = "auto_increment (tab (committed s))"
    from created [OF 1] obtain s1 where s1: "goc (\<lambda>t. t) v s = (Inr ?i, s1)"
      "tab (committed s1) = tab (committed s) @ [Tag ?i v 0]" "faults s1 = []"
      by blast
    have f1: "filter (\<lambda>r. tag_text r = v) (tab (committed s1)) = [Tag ?i v 0]"
      using 1 s1(2) by simp
    from found [OF s1(3) f1] obtain s2 where s2: "goc (\<lambda>t. t) v s1 = (Inr ?i, s2)"
      "committed s2 = committed s1"
      by auto
    show ?thesis
      unfolding same_id_one_row_def
      using 1 s1 s2 f1 by (auto simp: list_ex_filter)
  next
    case 2
    from found [OF assms(3) 2] obtain s1 where s1: "goc (\<lambda>t. t) v s = (Inr (tag_id r), s1)"
      "committed s1 = committed s" "faults s1 = []"
      by blast
    have f1: "filter (\<lambda>r. tag_text r = v) (tab (committed s1)) = [r]"
      using 2 s1(2) by simp
    from found [OF s1(3) f1] obtain s2 where s2: "goc (\<lambda>t. t) v s1 = (Inr (tag_id r), s2)"
      "committed s2 = committed s1"
      by auto
    show ?thesis
      unfolding same_id_one_row_def
      using 2 s1 s2 f1 by (auto simp: list_ex_filter)
  qed
qed

text \<open>
  The runs of the get-or-create in which it is idempotent: the store signals no
  failure other than the duplicate, the texts of the table are unique and the text
  fits the column (at most 100 characters; for hashtags also without \<open>#\<close>, which
  \<open>HashtagDAL.insert\<close> strips). Two calls with the same text return the same id,
  exactly one row has the text afterwards, and a call that finds the text writes
  nothing. When another caller committed the text between the lookup and the insert,
  the insert fails on the duplicate and the call returns the id of the row that now
  exists.
\<close>

lemma insert_if_not_exists_idempotent_nofault:
  assumes "faults s = []"
    and "distinct (map tag_text (hashtag_tab (committed s)))"
    and "distinct (map tag_text (topic_tab (committed s)))"
  shows "(length text \<le> 100 \<and> CHR ''#'' \<notin> set text
       \<longrightarrow> same_id_one_row HashtagBLL_insert_if_not_exists hashtag_tab text s)
    \<and> (length text \<le> 100
       \<longrightarrow> same_id_one_row TopicBLL_insert_if_not_exists topic_tab text s)
    \<and> (CHR ''#'' \<notin> set text
        \<and> \<not> list_ex (\<lambda>r. tag_text r = text) (hashtag_tab (committed s))
        \<and> distinct (map tag_text (hashtag_tab (rival (committed s))))
        \<and> list_ex (\<lambda>r. tag_text r = text) (hashtag_tab (rival (committed s)))
       \<longrightarrow> duplicate_returns_existing HashtagBLL_insert_if_not_exists hashtag_tab text rival s)
    \<and> (\<not> list_ex (\<lambda>r. tag_text r = text) (topic_tab (committed s))
        \<and> distinct (map tag_text (topic_tab (rival (committed s))))
        \<and> list_ex (\<lambda>r. tag_text r = text) (topic_tab (rival (committed s)))
       \<longrightarrow> duplicate_returns_existing TopicBLL_insert_if_not_exists topic_tab text rival s)"
proof (intro conjI impI)
  assume a: "length text \<le> 100 \<and> CHR ''#'' \<notin> set text"
  show "same_id_one_row HashtagBLL_insert_if_not_exists hashtag_tab text s"
  proof (rule same_id_one_row_intro [where tab = hashtag_tab])
    show "faults s = []" "distinct (map tag_text (hashtag_tab (committed s)))"
      by fact+
  next
    fix s :: store and r
    assume "faults s = []" "filter (\<lambda>r. tag_text r = text) (hashtag_tab (committed s)) = [r]"
    then show "\<exists>s'. HashtagBLL_insert_if_not_exists (\<lambda>t. t) text s = (Inr (tag_id r), s')
        \<and> committed s' = committed s \<and> faults s' = []"
      by (rule HashtagBLL_found)
  next
    assume e: "filter (\<lambda>r. tag_text r = text) (hashtag_tab (committed s)) = []"
    have n: "\<not> list_ex (\<lambda>r. tag_text r = text) (hashtag_tab (committed s))"
      using e by (simp add: list_ex_filter)
    from HashtagBLL_created [where rival = "\<lambda>t. t", OF assms(1) e] a n
    show "\<exists>s'. HashtagBLL_insert_if_not_exists (\<lambda>t. t) text s
          = (Inr (auto_increment (hashtag_tab (committed s))), s')
        \<and> hashtag_tab (committed s') = hashtag_tab (committed s)
             @ [Tag (auto_increment (hashtag_tab (committed s))) text 0]
        \<and> faults s' = []"
      by auto
  qed
next
  assume a: "length text \<le> 100"
  show "same_id_one_row TopicBLL_insert_if_not_exists topic_tab text s"
  proof (rule same_id_one_row_intro [where tab = topic_tab])
    show "faults s = []" "distinct (map tag_text (topic_tab (committed s)))"
      by fact+
  next
    fix s :: store and r
    assume "faults s = []" "filter (\<lambda>r. tag_text r = text) (topic_tab (committed s)) = [r]"
    then show "\<exists>s'. TopicBLL_insert_if_not_exists (\<lambda>t. t) text s = (Inr (tag_id r), s')
        \<and> committed s' = committed s \<and> faults s' = []"
      by (rule TopicBLL_found)
  next
    assume e: "filter (\<lambda>r. tag_text r = text) (topic_tab (committed s)) = []"
    have n: "\<not> list_ex (\<lambda>r. tag_text r = text) (topic_tab (committed s))"
      using e by (simp add: list_ex_filter)
    from TopicBLL_created [where rival = "\<lambda>t. t", OF assms(1) e] a n
    show "\<exists>s'. TopicBLL_insert_if_not_exists (\<lambda>t. t) text s
          = (Inr (auto_increment (topic_tab (committed s))), s')
        \<and> topic_tab (committed s') = topic_tab (committed s)
             @ [Tag (auto_increment (topic_tab (committed s))) text 0]
        \<and> faults s' = []"
      by auto
  qed
next
  assume a: "CHR ''#'' \<notin> set text
        \<and> \<not> list_ex (\<lambda>r. tag_text r = text) (hashtag_tab (committed s))
        \<and> distinct (map tag_text (hashtag_tab (rival (committed s))))
        \<and> list_ex (\<lambda>r. tag_text r = text) (hashtag_tab (rival (committed s)))"
  then obtain r where r: "filter (\<lambda>r. tag_text r = text) (hashtag_tab (rival (committed s))) = [r]"
    using filter_text_unique [of "hashtag_tab (rival (committed s))" "text"]
    by (auto simp: list_ex_filter)
  have e: "filter (\<lambda>r. tag_text r = text) (hashtag_tab (committed s)) = []"
    using a by (simp add: list_ex_filter)
  have h: "CHR ''#'' \<notin> set text"
    using a by simp
  from HashtagBLL_raced [where rival = rival, OF assms(1) e h r] r
  show "duplicate_returns_existing HashtagBLL_insert_if_not_exists hashtag_tab text rival s"
    unfolding duplicate_returns_existing_def by blast
next
  assume a: "\<not> list_ex (\<lambda>r. tag_text r = text) (topic_tab (committed s))
        \<and> distinct (map tag_text (topic_tab (rival (committed s))))
        \<and> list_ex (\<lambda>r. tag_text r = text) (topic_tab (rival (committed s)))"
  then obtain r where r: "filter (\<lambda>r. tag_text r = text) (topic_tab (rival (committed s))) = [r]"
    using filter_text_unique [of "topic_tab (rival (committed s))" "text"]
    by (auto simp: list_ex_filter)
  have e: "filter (\<lambda>r. tag_text r = text) (topic_tab (committed s)) = []"
    using a by (simp add: list_ex_filter)
  from TopicBLL_raced [where rival = rival, OF assms(1) e r] r
  show "duplicate_returns_existing TopicBLL_insert_if_not_exists topic_tab text rival s"
    unfolding duplicate_returns_existing_def by blast
qed

lemma insert_if_not_exists_idempotent_nofault_example:
  "same_id_one_row HashtagBLL_insert_if_not_exists hashtag_tab ''x'' (store_of alice_tables [])
   \<and> same_id_one_row TopicBLL_insert_if_not_exists topic_tab ''x'' (store_of alice_tables [])
   \<and> duplicate_returns_existing HashtagBLL_insert_if_not_exists hashtag_tab ''x''
        rival_hashtag_x (store_of alice_tables [])
   \<and> duplicate_returns_existing TopicBLL_insert_if_not_exists topic_tab ''x''
        rival_topic_x (store_of alice_tables [])"
proof -
  let ?S = "store_of alice_tables []"
  have h: "faults ?S = []" "distinct (map tag_text (hashtag_tab (committed ?S)))"
    "distinct (map tag_text (topic_tab (committed ?S)))"
    by (simp_all add: store_of_def alice_tables_def)
  have x: "length ''x'' \<le> 100 \<and> CHR ''#'' \<notin> set ''x''" "length ''x'' \<le> 100"
    by simp_all
  have rh: "CHR ''#'' \<notin> set ''x''
      \<and> \<not> list_ex (\<lambda>r. tag_text r = ''x'') (hashtag_tab (committed ?S))
      \<and> distinct (map tag_text (hashtag_tab (rival_hashtag_x (committed ?S))))
      \<and> list_ex (\<lambda>r. tag_text r = ''x'') (hashtag_tab (rival_hashtag_x (committed ?S)))"
    by (simp add: store_of_def alice_tables_def rival_hashtag_x_def)
  have rt: "\<not> list_ex (\<lambda>r. tag_text r = ''x'') (topic_tab (committed ?S))
      \<and> distinct (map tag_text (topic_tab (rival_topic_x (committed ?S))))
      \<and> list_ex (\<lambda>r. tag_text r = ''x'') (topic_tab (rival_topic_x (committed ?S)))"
    by (simp add: store_of_def alice_tables_def rival_topic_x_def)
  from insert_if_not_exists_idempotent_nofault [OF h, of "''x''" rival_hashtag_x]
    insert_if_not_exists_idempotent_nofault [OF h, of "''x''" rival_topic_x] x rh rt
  show ?thesis by blast
qed

text \<open>
  C6: two calls of the get-or-create with the same text return the same id, the id of
  the one row with that text. The code does not do that when the insert fails for
  another reason than a duplicate. The handler of the insert is a bare \<open>except\<close> with
  the comment \<open>On Duplicate\<close>: it takes every failure for a duplicate, the second
  lookup finds no row, \<open>result.id\<close> raises, and the \<open>return\<close> in the \<open>finally\<close> block
  replaces the exception by the initial \<open>record_id = 0\<close>. On an empty table, with one
  failure of the store at the insert (tick 1, the second round trip), the first call returns
  0, the id of no row, and creates no row; the second call creates the row and
  returns 1. This holds for hashtags and for topics. A hashtag of 101 characters,
  which \<open>TweetBLL.upsert\<close> passes on uncut, does not fit the column: both calls return 0
  and no row is created.
\<close>

theorem insert_if_not_exists_returns_no_row:
  "fst (HashtagBLL_insert_if_not_exists nobody ''x'' (store_of alice_tables [1])) = Inr 0
   \<and> hashtag_tab (committed (snd (HashtagBLL_insert_if_not_exists nobody ''x''
        (store_of alice_tables [1])))) = []
   \<and> fst (HashtagBLL_insert_if_not_exists nobody ''x''
        (snd (HashtagBLL_insert_if_not_exists nobody ''x'' (store_of alice_tables [1]))))
      = Inr 1
   \<and> fst (TopicBLL_insert_if_not_exists nobody ''x'' (store_of alice_tables [1])) = Inr 0
   \<and> topic_tab (committed (snd (TopicBLL_insert_if_not_exists nobody ''x''
        (store_of alice_tables [1])))) = []
   \<and> fst (TopicBLL_insert_if_not_exists nobody ''x''
        (snd (TopicBLL_insert_if_not_exists nobody ''x'' (store_of alice_tables [1]))))
      = Inr 1
   \<and> fst (HashtagBLL_insert_if_not_exists nobody (replicate 101 CHR ''a'')
        (store_of alice_tables [])) = Inr 0
   \<and> fst (HashtagBLL_insert_if_not_exists nobody (replicate 101 CHR ''a'')
        (snd (HashtagBLL_insert_if_not_exists nobody (replicate 101 CHR ''a'')
           (store_of alice_tables [])))) = Inr 0
   \<and> hashtag_tab (committed (snd (HashtagBLL_insert_if_not_exists nobody
        (replicate 101 CHR ''a'')
        (snd (HashtagBLL_insert_if_not_exists nobody (replicate 101 CHR ''a'')
           (store_of alice_tables [])))))) = []"
  by code_simp

section \<open>The hashtag links after an ingestion upsert\<close>












lemma not_is_word_hash: "\<not> is_word CHR ''#''"
  by (simp add: is_word_def)









end
